theory Spec2Isabelle
  imports Complex_Main
begin

section \<open>Strings of the host language\<close>

text \<open>
  The analyzers work on JavaScript strings. A string is modelled as a list of
  characters, each character standing for one UTF-16 code unit below 256 (the
  Latin-1 range): on that range \<open>toLowerCase\<close>, \<open>trim\<close> and the
  regular-expression class \<open>\s\<close> are closed and are written out below.
  Code units from 256 on are outside the model.
\<close>

definition isSpace :: "char \<Rightarrow> bool" where
  \<comment> \<open>\<open>\s\<close>, and the characters \<open>trim\<close> removes: TAB, LF, VT, FF, CR, SP, NBSP\<close>
  "isSpace c = (c \<in> set [CHR 0x09, CHR 0x0A, CHR 0x0B, CHR 0x0C, CHR 0x0D, CHR 0x20, CHR 0xA0])"

definition toLowerChar :: "char \<Rightarrow> char" where
  "toLowerChar c =
     (let n = (of_char c :: nat)
      in if (65 \<le> n \<and> n \<le> 90) \<or> (192 \<le> n \<and> n \<le> 222 \<and> n \<noteq> 215)
         then char_of (n + 32) else c)"

definition toLowerCase :: "string \<Rightarrow> string" where
  "toLowerCase s = map toLowerChar s"

definition trim :: "string \<Rightarrow> string" where
  "trim s = rev (dropWhile isSpace (rev (dropWhile isSpace s)))"

text \<open>\<open>s.replace(/P+/g, r)\<close> for a one-character class \<open>P\<close>: every maximal run becomes \<open>r\<close>.\<close>

function replaceRuns :: "(char \<Rightarrow> bool) \<Rightarrow> string \<Rightarrow> string \<Rightarrow> string" where
  "replaceRuns P r [] = []"
| "replaceRuns P r (c # cs) =
     (if P c then r @ replaceRuns P r (dropWhile P cs) else c # replaceRuns P r cs)"
  by pat_completeness auto
termination
  by (relation "measure (\<lambda>(P, r, s). length s)")
     (auto simp: less_Suc_eq_le length_dropWhile_le)

text \<open>\<open>s.split(/P+/)\<close>: the pieces between the maximal runs; never an empty array.\<close>

function splitRuns :: "(char \<Rightarrow> bool) \<Rightarrow> string \<Rightarrow> string list" where
  "splitRuns P s =
     (case dropWhile (\<lambda>c. \<not> P c) s of
        [] \<Rightarrow> [s]
      | c # rest \<Rightarrow> takeWhile (\<lambda>c. \<not> P c) s # splitRuns P (dropWhile P rest))"
  by pat_completeness auto
termination
proof (relation "measure (\<lambda>(P, s). length s)")
  show "wf (measure (\<lambda>(P, s). length s))" by simp
next
  fix P :: "char \<Rightarrow> bool" and s :: string and c rest
  assume d: "dropWhile (\<lambda>c. \<not> P c) s = c # rest"
  have "length (dropWhile P rest) \<le> length rest" by (rule length_dropWhile_le)
  also have "length rest < length (dropWhile (\<lambda>c. \<not> P c) s)" using d by simp
  also have "\<dots> \<le> length s" by (rule length_dropWhile_le)
  finally show "((P, dropWhile P rest), (P, s)) \<in> measure (\<lambda>(P, s). length s)" by simp
qed

declare splitRuns.simps [simp del]

text \<open>\<open>s.split(d)\<close> for a one-character separator \<open>d\<close>.\<close>

fun splitChar :: "char \<Rightarrow> string \<Rightarrow> string list" where
  "splitChar d [] = [[]]"
| "splitChar d (c # cs) =
     (if c = d then [] # splitChar d cs
      else (case splitChar d cs of w # ws \<Rightarrow> (c # w) # ws | [] \<Rightarrow> [[c]]))"

text \<open>\<open>xs.join(sep)\<close>\<close>

fun join :: "string \<Rightarrow> string list \<Rightarrow> string" where
  "join sep [] = []"
| "join sep [x] = x"
| "join sep (x # y # ys) = x @ sep @ join sep (y # ys)"

section \<open>Text normalizer\<close>

text \<open>The characters of the class \<open>[.,/#!$%^&*;:{}=\-_`~()]\<close>.\<close>

definition punctuation :: "char list" where
  "punctuation = ''.,/#!$%^&*;:{}=-_`~()''"

definition normalizeText :: "string \<Rightarrow> string" where
  "normalizeText text =
     trim (replaceRuns isSpace '' ''
       (filter (\<lambda>c. c \<notin> set punctuation) (toLowerCase text)))"

text \<open>Whitespace normal form: the only whitespace is single spaces.\<close>

fun wsnf :: "string \<Rightarrow> bool" where
  "wsnf [] = True"
| "wsnf [c] = (isSpace c \<longrightarrow> c = CHR '' '')"
| "wsnf (c # d # cs) = ((isSpace c \<longrightarrow> c = CHR '' '' \<and> \<not> isSpace d) \<and> wsnf (d # cs))"

section \<open>Syllable estimator\<close>

definition isLetterAZ :: "char \<Rightarrow> bool" where
  "isLetterAZ c = (c \<in> set ''abcdefghijklmnopqrstuvwxyz'')"

definition isVowelY :: "char \<Rightarrow> bool" where
  "isVowelY c = (c \<in> set ''aeiouy'')"

text \<open>
  \<open>word.replace(/(?:[^laeiouy]es|ed|[^laeiouy]e)$/, '')\<close>. Every alternative is anchored
  at the end, so the leftmost match is the three-character one when it applies, and
  otherwise one of the two-character ones.
\<close>

definition stripSuffix :: "string \<Rightarrow> string" where
  "stripSuffix w =
     (let n = length w
      in if 3 \<le> n \<and> w ! (n - 3) \<notin> set ''laeiouy'' \<and> drop (n - 2) w = ''es'' then take (n - 3) w
         else if 2 \<le> n \<and> drop (n - 2) w = ''ed'' then take (n - 2) w
         else if 2 \<le> n \<and> w ! (n - 2) \<notin> set ''laeiouy'' \<and> drop (n - 1) w = ''e'' then take (n - 2) w
         else w)"

text \<open>\<open>word.replace(/^y/, '')\<close>\<close>

fun stripLeadingY :: "string \<Rightarrow> string" where
  "stripLeadingY [] = []"
| "stripLeadingY (c # cs) = (if c = CHR ''y'' then cs else c # cs)"

text \<open>\<open>word.match(/[aeiouy]{1,2}/g)\<close>: the matches, left to right, each of one or two characters.\<close>

fun vowelGroups :: "string \<Rightarrow> string list" where
  "vowelGroups [] = []"
| "vowelGroups [c] = (if isVowelY c then [[c]] else [])"
| "vowelGroups (c # d # cs) =
     (if isVowelY c
      then (if isVowelY d then [c, d] # vowelGroups cs else [c] # vowelGroups (d # cs))
      else vowelGroups (d # cs))"

definition countWordSyllables :: "string \<Rightarrow> nat" where
  "countWordSyllables word =
     (let w = filter isLetterAZ (toLowerCase word)
      in if length w \<le> 3 then 1
         else (let syllables = vowelGroups (stripLeadingY (stripSuffix w))
               in if syllables = [] then 1 else length syllables))"

text \<open>\<open>countSyllables\<close>: every piece of the split counts, the empty ones too.\<close>

definition countSyllables :: "string \<Rightarrow> nat" where
  "countSyllables text =
     foldl (\<lambda>total word. total + countWordSyllables word) 0 (splitRuns isSpace (toLowerCase text))"

subsection \<open>The estimator as the specification words it\<close>

text \<open>The maximal runs of vowel-or-y characters of a word.\<close>

definition vowelRuns :: "string \<Rightarrow> string list" where
  "vowelRuns w = filter (\<lambda>r. r \<noteq> []) (splitRuns (\<lambda>c. \<not> isVowelY c) w)"

text \<open>
  The suffix rule of the specification: a character other than \<open>a e i o u y\<close>
  followed by \<open>es\<close> or \<open>ed\<close>, or such a character followed by \<open>e\<close>.
\<close>

definition stripSuffix_spec :: "string \<Rightarrow> string" where
  "stripSuffix_spec w =
     (let n = length w
      in if 3 \<le> n \<and> w ! (n - 3) \<notin> set ''aeiouy'' \<and> drop (n - 2) w \<in> set [''es'', ''ed'']
         then take (n - 3) w
         else if 2 \<le> n \<and> w ! (n - 2) \<notin> set ''aeiouy'' \<and> drop (n - 1) w = ''e'' then take (n - 2) w
         else w)"

definition countWordSyllables_spec :: "string \<Rightarrow> nat" where
  "countWordSyllables_spec word =
     (let w = toLowerCase (filter (\<lambda>c. isLetterAZ (toLowerChar c)) word)
      in if length w \<le> 3 then 1
         else (let runs = vowelRuns (stripLeadingY (stripSuffix_spec w))
               in if runs = [] then 1 else length runs))"

text \<open>
  The estimator as the code has it, said with runs: the suffix rule is that of
  \<open>stripSuffix\<close>, and a run of \<open>n\<close> vowel-or-y characters counts \<open>(n + 1) div 2\<close>.
\<close>

definition countWordSyllables_runs :: "string \<Rightarrow> nat" where
  "countWordSyllables_runs word =
     (let w = filter isLetterAZ (toLowerCase word)
      in if length w \<le> 3 then 1
         else (let runs = vowelRuns (stripLeadingY (stripSuffix w))
               in if runs = [] then 1 else sum_list (map (\<lambda>r. (length r + 1) div 2) runs)))"

section \<open>Numbers\<close>

text \<open>
  A number of the host language is an IEEE double. The analyzers divide counts by
  counts, so the values that matter beyond the finite ones are the two infinities and
  not-a-number; finite values are modelled as exact reals (rounding is left out), and the
  sign of zero is left out: no divisor here is negative. A finite value of the model can
  therefore differ from the double in its last bits, and a rounded value of the report by
  one where the double falls just short of a half (23 of 40 words are 57.49999999999999
  percent as a double and 57.5 here); whether a value is finite, infinite or
  not-a-number is the same in both.
\<close>

datatype jsnum = Fin real | PosInf | NegInf | NaN

fun js_neg :: "jsnum \<Rightarrow> jsnum" where
  "js_neg (Fin a) = Fin (- a)"
| "js_neg PosInf = NegInf"
| "js_neg NegInf = PosInf"
| "js_neg NaN = NaN"

fun js_add :: "jsnum \<Rightarrow> jsnum \<Rightarrow> jsnum" where
  "js_add (Fin a) (Fin b) = Fin (a + b)"
| "js_add NaN _ = NaN"
| "js_add _ NaN = NaN"
| "js_add PosInf NegInf = NaN"
| "js_add NegInf PosInf = NaN"
| "js_add PosInf _ = PosInf"
| "js_add NegInf _ = NegInf"
| "js_add _ PosInf = PosInf"
| "js_add _ NegInf = NegInf"

definition js_sub :: "jsnum \<Rightarrow> jsnum \<Rightarrow> jsnum" where
  "js_sub a b = js_add a (js_neg b)"

definition signed_inf :: "bool \<Rightarrow> jsnum" where
  "signed_inf positive = (if positive then PosInf else NegInf)"

fun js_mul :: "jsnum \<Rightarrow> jsnum \<Rightarrow> jsnum" where
  "js_mul (Fin a) (Fin b) = Fin (a * b)"
| "js_mul NaN _ = NaN"
| "js_mul _ NaN = NaN"
| "js_mul (Fin a) PosInf = (if a = 0 then NaN else signed_inf (0 < a))"
| "js_mul (Fin a) NegInf = (if a = 0 then NaN else signed_inf (a < 0))"
| "js_mul PosInf (Fin b) = (if b = 0 then NaN else signed_inf (0 < b))"
| "js_mul NegInf (Fin b) = (if b = 0 then NaN else signed_inf (b < 0))"
| "js_mul PosInf PosInf = PosInf"
| "js_mul PosInf NegInf = NegInf"
| "js_mul NegInf PosInf = NegInf"
| "js_mul NegInf NegInf = PosInf"

fun js_div :: "jsnum \<Rightarrow> jsnum \<Rightarrow> jsnum" where
  "js_div (Fin a) (Fin b) =
     (if b = 0 then (if a = 0 then NaN else signed_inf (0 < a)) else Fin (a / b))"
| "js_div NaN _ = NaN"
| "js_div _ NaN = NaN"
| "js_div (Fin a) _ = Fin 0"
| "js_div PosInf (Fin b) = signed_inf (0 \<le> b)"
| "js_div NegInf (Fin b) = signed_inf (b < 0)"
| "js_div _ _ = NaN"

fun js_lt :: "jsnum \<Rightarrow> jsnum \<Rightarrow> bool" where
  "js_lt (Fin a) (Fin b) = (a < b)"
| "js_lt NaN _ = False"
| "js_lt _ NaN = False"
| "js_lt _ NegInf = False"
| "js_lt PosInf _ = False"
| "js_lt _ _ = True"

definition js_gt :: "jsnum \<Rightarrow> jsnum \<Rightarrow> bool" where
  "js_gt a b = js_lt b a"

fun js_le :: "jsnum \<Rightarrow> jsnum \<Rightarrow> bool" where
  "js_le (Fin a) (Fin b) = (a \<le> b)"
| "js_le NaN _ = False"
| "js_le _ NaN = False"
| "js_le NegInf _ = True"
| "js_le _ PosInf = True"
| "js_le _ _ = False"

definition js_ge :: "jsnum \<Rightarrow> jsnum \<Rightarrow> bool" where
  "js_ge a b = js_le b a"

text \<open>\<open>Math.round\<close>: the nearest integer, halves upwards.\<close>

fun Math_round :: "jsnum \<Rightarrow> jsnum" where
  "Math_round (Fin a) = Fin (of_int \<lfloor>a + 1 / 2\<rfloor>)"
| "Math_round x = x"

text \<open>A number in a condition: zero and not-a-number count as false.\<close>

fun truthy :: "jsnum \<Rightarrow> bool" where
  "truthy (Fin a) = (a \<noteq> 0)"
| "truthy NaN = False"
| "truthy _ = True"

definition num :: "nat \<Rightarrow> jsnum" where
  "num n = Fin (real n)"

section \<open>Regular expressions of the host language\<close>

text \<open>
  The occurrence finder builds a regular expression from the normalized keyword, with
  the flags \<open>gi\<close>. The model below is the pattern grammar and the matcher of the host
  language (without the unicode flag) on the patterns that can be built so: the
  characters that \<open>normalizeText\<close> removes or rewrites (capital letters, the punctuation
  class, whitespace) never reach a pattern, and a pattern with one of them is outside the
  model. What is left of the grammar: literal characters, escapes, character classes
  without ranges or negation, the quantifiers \<open>+\<close> and \<open>?\<close> (greedy and lazy), the
  word-boundary assertion and alternation.
\<close>

text \<open>
  \<open>SyntaxError\<close> is the exception of the constructor. \<open>Unmodelled\<close> is no exception of
  the program: it marks a pattern outside the model, and no pattern of the occurrence
  finder is one (lemma \<open>findKeywordOccurrences_modelled\<close>).
\<close>

datatype error = SyntaxError | Unmodelled

definition backslash :: char where
  "backslash = CHR 0x5C"

definition isDigit :: "char \<Rightarrow> bool" where
  "isDigit c = (c \<in> set ''0123456789'')"

definition isOctalDigit :: "char \<Rightarrow> bool" where
  "isOctalDigit c = (c \<in> set ''01234567'')"

definition isAsciiLetter :: "char \<Rightarrow> bool" where
  "isAsciiLetter c = (c \<in> set ''abcdefghijklmnopqrstuvwxyzABCDEFGHIJKLMNOPQRSTUVWXYZ'')"

definition isWordChar :: "char \<Rightarrow> bool" where
  \<comment> \<open>\<open>\w\<close>, and the word characters of \<open>\b\<close>\<close>
  "isWordChar c = (isAsciiLetter c \<or> isDigit c \<or> c = CHR ''_'')"

definition digitVal :: "char \<Rightarrow> nat" where
  "digitVal c = of_char c - 48"

definition hexVal :: "char \<Rightarrow> nat option" where
  "hexVal c =
     (if isDigit c then Some (of_char c - 48)
      else if c \<in> set ''abcdef'' then Some (of_char c - 87)
      else if c \<in> set ''ABCDEF'' then Some (of_char c - 55)
      else None)"

text \<open>
  Case-insensitive matching compares canonical forms: the upper-case form of a code
  unit when that is a single code unit, except that a code unit from 128 on never maps
  below 128. Below 256 the letters map to their capitals, U+00B5 maps to U+039C and
  U+00FF to U+0178. Beyond 256 only U+03BC is given (it maps to U+039C as well): every
  other code unit stands for itself, which is all that a comparison with a character of
  the text can see.
\<close>

definition Canonicalize :: "nat \<Rightarrow> nat" where
  "Canonicalize n =
     (if (97 \<le> n \<and> n \<le> 122) \<or> (224 \<le> n \<and> n \<le> 254 \<and> n \<noteq> 247) then n - 32
      else if n = 181 \<or> n = 956 then 924
      else if n = 255 then 376
      else n)"

datatype cset = CChar nat | CDigit | CWord | CSpace

fun itemMatches :: "cset \<Rightarrow> char \<Rightarrow> bool" where
  "itemMatches (CChar n) c = (Canonicalize n = Canonicalize (of_char c))"
| "itemMatches CDigit c = isDigit c"
| "itemMatches CWord c = isWordChar c"
| "itemMatches CSpace c = isSpace c"

definition csMatches :: "cset list \<Rightarrow> char \<Rightarrow> bool" where
  "csMatches items c = list_ex (\<lambda>item. itemMatches item c) items"

datatype quant = One | Opt bool | Plus bool | Star bool

datatype rterm = Boundary | Atom "cset list" quant

type_synonym regex = "rterm list list"

subsection \<open>The pattern grammar\<close>

text \<open>
  Each parser is given the text that follows what has been read and returns, with its
  result, how many characters of that text it has used.
\<close>

text \<open>A legacy octal escape, of up to three digits and at most 255.\<close>

definition legacyOctal :: "string \<Rightarrow> nat \<times> nat" where
  "legacyOctal s =
     (case s of
        [] \<Rightarrow> (0, 0)
      | d1 # r \<Rightarrow>
          (let a = digitVal d1
           in case r of
                [] \<Rightarrow> (a, 1)
              | d2 # r2 \<Rightarrow>
                  if isOctalDigit d2
                  then (let b = digitVal d2
                        in if a \<le> 3
                           then (case r2 of
                                   [] \<Rightarrow> (8 * a + b, 2)
                                 | d3 # _ \<Rightarrow>
                                     if isOctalDigit d3 then (64 * a + 8 * b + digitVal d3, 3)
                                     else (8 * a + b, 2))
                           else (8 * a + b, 2))
                  else (a, 1)))"

text \<open>
  The escapes that mean the same inside and outside a class: \<open>\d \w \s\<close>, the control
  escapes, \<open>\xHH\<close>, \<open>\uHHHH\<close>, legacy octal escapes (there are no groups, so a decimal
  escape is never a back reference) and the identity escape.
\<close>

definition parseCharacterEscape :: "string \<Rightarrow> cset \<times> nat" where
  "parseCharacterEscape s =
     (case s of
        [] \<Rightarrow> (CChar 92, 0)
      | e # r \<Rightarrow>
          if e = CHR ''d'' then (CDigit, 1)
          else if e = CHR ''w'' then (CWord, 1)
          else if e = CHR ''s'' then (CSpace, 1)
          else if e = CHR ''t'' then (CChar 9, 1)
          else if e = CHR ''n'' then (CChar 10, 1)
          else if e = CHR ''v'' then (CChar 11, 1)
          else if e = CHR ''f'' then (CChar 12, 1)
          else if e = CHR ''r'' then (CChar 13, 1)
          else if e = CHR ''x'' then
            (case map hexVal (take 2 r) of
               [Some a, Some b] \<Rightarrow> (CChar (16 * a + b), 3)
             | _ \<Rightarrow> (CChar 120, 1))
          else if e = CHR ''u'' then
            (case map hexVal (take 4 r) of
               [Some a, Some b, Some c, Some d] \<Rightarrow> (CChar (4096 * a + 256 * b + 16 * c + d), 5)
             | _ \<Rightarrow> (CChar 117, 1))
          else if isOctalDigit e then (case legacyOctal s of (v, k) \<Rightarrow> (CChar v, k))
          else (CChar (of_char e), 1))"

datatype atom = ABoundary | ASet "cset list"

text \<open>
  An escape outside a class. \<open>\b\<close> is the assertion; \<open>\c\<close> before a letter is a control
  character, and before anything else the backslash stands for itself and the \<open>c\<close> is
  read again.
\<close>

definition parseAtomEscape :: "string \<Rightarrow> atom \<times> nat" where
  "parseAtomEscape s =
     (case s of
        [] \<Rightarrow> (ASet [CChar 92], 0)
      | e # r \<Rightarrow>
          if e = CHR ''b'' then (ABoundary, 1)
          else if e = CHR ''c'' then
            (case r of
               [] \<Rightarrow> (ASet [CChar 92], 0)
             | l # _ \<Rightarrow>
                 if isAsciiLetter l then (ASet [CChar (of_char l mod 32)], 2)
                 else (ASet [CChar 92], 0))
          else (case parseCharacterEscape s of (item, k) \<Rightarrow> (ASet [item], k)))"

text \<open>
  A class, read after its opening bracket up to the closing one: \<open>None\<close> when the
  pattern ends first. Inside a class \<open>\b\<close> is the backspace, and \<open>\c\<close> also takes a
  digit or an underscore.
\<close>

fun parseClass :: "string \<Rightarrow> cset list \<Rightarrow> nat \<Rightarrow> (cset list \<times> nat) option" where
  "parseClass [] acc n = None"
| "parseClass (c # cs) acc n =
     (if c = CHR '']'' then Some (rev acc, Suc n)
      else if c = backslash then
        (case cs of
           [] \<Rightarrow> None
         | e # r \<Rightarrow>
             if e = CHR ''b'' then parseClass r (CChar 8 # acc) (n + 2)
             else if e = CHR ''c'' then
               (case r of
                  [] \<Rightarrow> parseClass cs (CChar 92 # acc) (Suc n)
                | l # r' \<Rightarrow>
                    if isAsciiLetter l \<or> isDigit l \<or> l = CHR ''_''
                    then parseClass r' (CChar (of_char l mod 32) # acc) (n + 3)
                    else parseClass cs (CChar 92 # acc) (Suc n))
             else (case parseCharacterEscape cs of
                     (item, k) \<Rightarrow> parseClass (drop (k - 1) r) (item # acc) (n + 1 + k)))
      else parseClass cs (CChar (of_char c) # acc) (Suc n))"

definition parseQuantifier :: "string \<Rightarrow> quant \<times> nat" where
  "parseQuantifier s =
     (case s of
        [] \<Rightarrow> (One, 0)
      | q # r \<Rightarrow>
          if q = CHR ''+'' \<or> q = CHR ''?''
          then (let lazy = (case r of [] \<Rightarrow> False | l # _ \<Rightarrow> l = CHR ''?'')
                in (if q = CHR ''+'' then Plus (\<not> lazy) else Opt (\<not> lazy), if lazy then 2 else 1))
          else (One, 0))"

text \<open>
  A disjunction of alternatives, each a sequence of terms. A quantifier with nothing
  to repeat (at the start of an alternative, after an assertion, after a quantifier), a
  class that is not closed and a backslash that ends the pattern are syntax errors.
\<close>

fun parseDisjunction :: "string \<Rightarrow> rterm list \<Rightarrow> regex \<Rightarrow> error + regex" where
  "parseDisjunction [] cur alts = Inr (rev (rev cur # alts))"
| "parseDisjunction (c # cs) cur alts =
     (if c = CHR ''|'' then parseDisjunction cs [] (rev cur # alts)
      else if c = CHR ''+'' \<or> c = CHR ''?'' then Inl SyntaxError
      else if c = CHR ''['' then
        (case parseClass cs [] 0 of
           None \<Rightarrow> Inl SyntaxError
         | Some (items, k) \<Rightarrow>
             (case parseQuantifier (drop k cs) of
                (q, j) \<Rightarrow> parseDisjunction (drop (k + j) cs) (Atom items q # cur) alts))
      else if c = backslash then
        (if cs = [] then Inl SyntaxError
         else (case parseAtomEscape cs of
                 (ABoundary, k) \<Rightarrow> parseDisjunction (drop k cs) (Boundary # cur) alts
               | (ASet items, k) \<Rightarrow>
                   (case parseQuantifier (drop k cs) of
                      (q, j) \<Rightarrow> parseDisjunction (drop (k + j) cs) (Atom items q # cur) alts)))
      else (case parseQuantifier cs of
              (q, j) \<Rightarrow> parseDisjunction (drop j cs) (Atom [CChar (of_char c)] q # cur) alts))"

text \<open>The characters a normalized keyword can hold.\<close>

definition survives :: "char \<Rightarrow> bool" where
  "survives c = (toLowerChar c = c \<and> c \<notin> set punctuation \<and> \<not> isSpace c)"

text \<open>\<open>new RegExp(pattern, 'gi')\<close>\<close>

definition RegExp_gi :: "string \<Rightarrow> error + regex" where
  "RegExp_gi pattern =
     (if list_all survives pattern then parseDisjunction pattern [] [] else Inl Unmodelled)"

subsection \<open>The matcher\<close>

definition isBoundary :: "char option \<Rightarrow> string \<Rightarrow> bool" where
  "isBoundary prev rest =
     ((case prev of None \<Rightarrow> False | Some p \<Rightarrow> isWordChar p)
        \<noteq> (case rest of [] \<Rightarrow> False | c # _ \<Rightarrow> isWordChar c))"

definition orElse :: "'a option \<Rightarrow> 'a option \<Rightarrow> 'a option" where
  "orElse a b = (case a of Some x \<Rightarrow> Some x | None \<Rightarrow> b)"

text \<open>
  A sequence of terms matched at a position, given the character before the position
  and the text from it on: the length of the match that backtracking finds first.
  \<open>Star\<close> is what is left of a \<open>Plus\<close> after its first character.
\<close>

fun matchTerms :: "rterm list \<Rightarrow> char option \<Rightarrow> string \<Rightarrow> nat option" where
  "matchTerms [] prev rest = Some 0"
| "matchTerms (Boundary # ts) prev rest =
     (if isBoundary prev rest then matchTerms ts prev rest else None)"
| "matchTerms (Atom a One # ts) prev [] = None"
| "matchTerms (Atom a One # ts) prev (c # cs) =
     (if csMatches a c then map_option Suc (matchTerms ts (Some c) cs) else None)"
| "matchTerms (Atom a (Opt greedy) # ts) prev [] = matchTerms ts prev []"
| "matchTerms (Atom a (Opt greedy) # ts) prev (c # cs) =
     (let taken = (if csMatches a c then map_option Suc (matchTerms ts (Some c) cs) else None);
          skipped = matchTerms ts prev (c # cs)
      in if greedy then orElse taken skipped else orElse skipped taken)"
| "matchTerms (Atom a (Plus greedy) # ts) prev [] = None"
| "matchTerms (Atom a (Plus greedy) # ts) prev (c # cs) =
     (if csMatches a c then map_option Suc (matchTerms (Atom a (Star greedy) # ts) (Some c) cs)
      else None)"
| "matchTerms (Atom a (Star greedy) # ts) prev [] = matchTerms ts prev []"
| "matchTerms (Atom a (Star greedy) # ts) prev (c # cs) =
     (let more = (if csMatches a c
                  then map_option Suc (matchTerms (Atom a (Star greedy) # ts) (Some c) cs)
                  else None);
          stop = matchTerms ts prev (c # cs)
      in if greedy then orElse more stop else orElse stop more)"

text \<open>The alternatives are tried in order.\<close>

fun matchHere :: "regex \<Rightarrow> char option \<Rightarrow> string \<Rightarrow> nat option" where
  "matchHere [] prev rest = None"
| "matchHere (alt # alts) prev rest = orElse (matchTerms alt prev rest) (matchHere alts prev rest)"

text \<open>
  \<open>text.match(regex)\<close> with the global flag: the matches from left to right, the search
  going on after each match, and one character further after an empty match. The source
  turns the \<open>null\<close> of no match into the empty list.
\<close>

function matchAll :: "regex \<Rightarrow> char option \<Rightarrow> string \<Rightarrow> string list" where
  "matchAll r prev [] = (case matchHere r prev [] of None \<Rightarrow> [] | Some n \<Rightarrow> [[]])"
| "matchAll r prev (c # cs) =
     (case matchHere r prev (c # cs) of
        None \<Rightarrow> matchAll r (Some c) cs
      | Some n \<Rightarrow>
          if n = 0 then [] # matchAll r (Some c) cs
          else take n (c # cs) # matchAll r (Some (last (take n (c # cs)))) (drop n (c # cs)))"
  by pat_completeness auto
termination
  by (relation "measure (\<lambda>(r, prev, s). length s)") auto

definition String_match :: "string \<Rightarrow> regex \<Rightarrow> string list" where
  "String_match text regex = matchAll regex None text"

section \<open>Keyword occurrence finder\<close>

definition findKeywordOccurrences :: "string \<Rightarrow> string \<Rightarrow> error + string list" where
  "findKeywordOccurrences text keyword =
     (let normalizedText = normalizeText text;
          normalizedKeyword = normalizeText keyword;
          words = splitChar CHR '' '' normalizedText;
          keywordWords = splitChar CHR '' '' normalizedKeyword
      in if length keywordWords = 1
         then (case RegExp_gi ([backslash, CHR ''b''] @ normalizedKeyword @ [backslash, CHR ''b'']) of
                 Inl e \<Rightarrow> Inl e
               | Inr regex \<Rightarrow> Inr (String_match text regex))
         else Inr (concat (map
                (\<lambda>i. if join '' '' (take (length keywordWords) (drop i words)) = normalizedKeyword
                     then [join '' '' (take (length keywordWords) (drop i (splitRuns isSpace text)))]
                     else [])
                [0 ..< length words + 1 - length keywordWords])))"

definition countKeywordInText :: "string \<Rightarrow> string \<Rightarrow> error + nat" where
  "countKeywordInText text keyword = map_sum id length (findKeywordOccurrences text keyword)"

section \<open>Documents and the report\<close>

text \<open>
  What the analyzers read of a parsed document: the language attribute of the root
  element, the text of the body, the text of the first \<open>title\<close> element if there is
  one, the texts of the \<open>p\<close>, \<open>h1\<close>, \<open>h2\<close> and \<open>h3\<close> elements in document order,
  the \<open>content\<close> attribute of the description \<open>meta\<close> element if there is one, and
  the path of the location.
\<close>

record Document =
  lang :: string
  bodyText :: string
  title :: "string option"
  paragraphs :: "string list"
  h1Elements :: "string list"
  h2Elements :: "string list"
  h3Elements :: "string list"
  metaDescription :: "string option"
  pathname :: string

text \<open>
  A line of the report is a call of the logger: its level and its message. A message is
  kept as the pieces of its template: literal text, a number put into the text, and a
  number put into the text with \<open>toFixed\<close>.
\<close>

datatype level = LError | LWarn | LInfo | LStep | LSuccess

datatype piece = S string | N jsnum | Fx nat jsnum

type_synonym entry = "level \<times> piece list"

definition newline :: string where
  "newline = [CHR 0x0A]"

definition dquote :: string where
  "dquote = [CHR 0x22]"

text \<open>\<open>x || ''\<close> for a text that may be missing.\<close>

definition orEmpty :: "string option \<Rightarrow> string" where
  "orEmpty x = (case x of None \<Rightarrow> [] | Some s \<Rightarrow> s)"

text \<open>\<open>s.includes(sub)\<close>\<close>

definition String_includes :: "string \<Rightarrow> string \<Rightarrow> bool" where
  "String_includes s sub = list_ex (\<lambda>i. take (length sub) (drop i s) = sub) [0 ..< Suc (length s)]"

text \<open>An exception ends the computation: the rest runs only on a result.\<close>

definition andThen :: "error + 'a \<Rightarrow> ('a \<Rightarrow> error + 'b) \<Rightarrow> error + 'b" where
  "andThen r f = (case r of Inl e \<Rightarrow> Inl e | Inr x \<Rightarrow> f x)"

section \<open>Keyword placement analyzer\<close>

record HeadingCounts =
  h1 :: nat
  h2 :: nat
  h3 :: nat

record KeywordAnalysis =
  density :: jsnum
  count :: nat
  inTitle :: bool
  inFirstParagraph :: bool
  inHeadings :: HeadingCounts
  inMetaDescription :: bool
  inUrl :: bool
  occurrences :: "string list"

text \<open>The \<open>reduce\<close> over the heading elements of one level.\<close>

fun countInElements :: "string list \<Rightarrow> string \<Rightarrow> nat \<Rightarrow> error + nat" where
  "countInElements [] keyword n = Inr n"
| "countInElements (el # els) keyword n =
     andThen (findKeywordOccurrences el keyword)
       (\<lambda>found. countInElements els keyword (n + length found))"

definition analyzeKeyword :: "Document \<Rightarrow> string \<Rightarrow> error + KeywordAnalysis" where
  "analyzeKeyword document keyword =
     (let wordCount = length (splitRuns isSpace (normalizeText (bodyText document)))
      in andThen (findKeywordOccurrences (bodyText document) keyword) (\<lambda>occs.
         let keywordCount = length occs;
             keywordWordCount = length (splitRuns isSpace keyword);
             dens = js_mul (js_div (num (keywordCount * keywordWordCount)) (num wordCount)) (num 100)
         in andThen (findKeywordOccurrences (orEmpty (title document)) keyword) (\<lambda>inT.
            andThen (findKeywordOccurrences
                       (case paragraphs document of [] \<Rightarrow> [] | p # _ \<Rightarrow> p) keyword) (\<lambda>inP.
            andThen (countInElements (h1Elements document) keyword 0) (\<lambda>h1Count.
            andThen (countInElements (h2Elements document) keyword 0) (\<lambda>h2Count.
            andThen (countInElements (h3Elements document) keyword 0) (\<lambda>h3Count.
            andThen (findKeywordOccurrences (orEmpty (metaDescription document)) keyword) (\<lambda>inM.
            let url = pathname document;
                urlKeyword = replaceRuns isSpace ''-'' (normalizeText keyword)
            in Inr \<lparr> density = dens,
                     count = keywordCount,
                     inTitle = (length inT > 0),
                     inFirstParagraph = (length inP > 0),
                     inHeadings = \<lparr> h1 = h1Count, h2 = h2Count, h3 = h3Count \<rparr>,
                     inMetaDescription = (length inM > 0),
                     inUrl = String_includes (normalizeText url) urlKeyword,
                     occurrences = occs \<rparr>))))))))"

definition recommendations :: "KeywordAnalysis \<Rightarrow> string list" where
  "recommendations analysis =
     (if count analysis = 0 then [''Add the keyword to your content''] else [])
     @ (if \<not> inTitle analysis \<and> h1 (inHeadings analysis) = 0
        then [''Include keyword in title or H1 heading''] else [])
     @ (if \<not> inFirstParagraph analysis then [''Add keyword to the first paragraph''] else [])
     @ (if \<not> inMetaDescription analysis then [''Include keyword in meta description''] else [])
     @ (if js_lt (density analysis) (Fin 0.5)
        then [''Increase keyword usage naturally throughout the content'']
        else if js_gt (density analysis) (Fin 2.5)
        then [''Reduce keyword usage to avoid over-optimization'']
        else [])"

definition displayResults :: "KeywordAnalysis \<Rightarrow> string \<Rightarrow> entry list" where
  "displayResults analysis keyword =
     [(LStep, [S ''Keyword Analysis Results:''])]
     @ (if count analysis > 0
        then [(LSuccess, [S ''Found '', N (num (count analysis)), S '' keyword occurrences'']),
              (LInfo, [S ''Keyword locations:''])]
             @ map (\<lambda>(index, occurrence).
                       (LInfo, [N (num (index + 1)), S ''. '', S dquote, S occurrence, S dquote]))
                 (enumerate 0 (occurrences analysis))
        else [(LError, [S ''No keyword occurrences found''])])
     @ [(LStep, [S ''Keyword Density:'']),
        (LInfo, [S ''Current density: '', Fx 2 (density analysis), S ''%''])]
     @ [if js_lt (density analysis) (Fin 0.5)
        then (LWarn, [S ''Density is too low (aim for 0.5% - 2.5%)''])
        else if js_gt (density analysis) (Fin 2.5)
        then (LWarn, [S ''Density is too high (possible keyword stuffing)''])
        else (LSuccess, [S ''Density is optimal''])]
     @ [(LStep, [S ''Key Element Checks:'']),
        if inTitle analysis then (LSuccess, [S ''Found in title''])
        else (LWarn, [S ''Missing from title'']),
        if inFirstParagraph analysis then (LSuccess, [S ''Found in first paragraph''])
        else (LWarn, [S ''Missing from first paragraph'']),
        (LStep, [S ''Heading Usage:'']),
        (LInfo, [S ''H1 headings: '', N (num (h1 (inHeadings analysis)))]),
        (LInfo, [S ''H2 headings: '', N (num (h2 (inHeadings analysis)))]),
        (LInfo, [S ''H3 headings: '', N (num (h3 (inHeadings analysis)))])]
     @ (if h1 (inHeadings analysis) + h2 (inHeadings analysis) + h3 (inHeadings analysis) = 0
        then [(LWarn, [S ''Not found in any headings''])] else [])
     @ [if inMetaDescription analysis then (LSuccess, [S ''Found in meta description''])
        else (LWarn, [S ''Missing from meta description'']),
        if inUrl analysis then (LSuccess, [S ''Found in URL''])
        else (LInfo, [S ''Consider including in URL''])]
     @ (if length (recommendations analysis) > 0
        then (LStep, [S ''Recommendations:''])
             # map (\<lambda>rec. (LWarn, [S rec])) (recommendations analysis)
        else [(LSuccess, [S ''Content is well-optimized for the focus keyword''])])"

section \<open>Keyword relationship analyzer\<close>

text \<open>\<open>new Set(xs)\<close>: the distinct elements, in the order of their first insertion.\<close>

definition Set_new :: "'a list \<Rightarrow> 'a list" where
  "Set_new xs = foldl (\<lambda>s x. if x \<in> set s then s else s @ [x]) [] xs"

definition calculateSimilarity :: "string \<Rightarrow> string \<Rightarrow> jsnum" where
  "calculateSimilarity str1 str2 =
     (let set1 = Set_new (splitChar CHR '' '' (toLowerCase str1));
          set2 = Set_new (splitChar CHR '' '' (toLowerCase str2));
          intersection = Set_new (filter (\<lambda>x. x \<in> set set2) set1);
          union = Set_new (set1 @ set2)
      in js_div (num (length intersection)) (num (length union)))"

text \<open>The lowercase, space-split word set of a keyword.\<close>

definition wordSet :: "string \<Rightarrow> string set" where
  "wordSet keyword = set (splitChar CHR '' '' (toLowerCase keyword))"

text \<open>The two nested loops that collect the pairs above the threshold.\<close>

definition similarities :: "string list \<Rightarrow> (string \<times> string \<times> jsnum) list" where
  "similarities keywords =
     concat (map (\<lambda>i.
       concat (map (\<lambda>j.
         (let similarity = calculateSimilarity (keywords ! i) (keywords ! j)
          in if js_gt similarity (Fin 0.3) then [(keywords ! i, keywords ! j, similarity)] else []))
         [i + 1 ..< length keywords]))
       [0 ..< length keywords])"

definition competingLine :: "string \<times> string \<times> jsnum \<Rightarrow> entry" where
  "competingLine t =
     (case t of (kw1, kw2, similarity) \<Rightarrow>
        (LWarn, [S ''- '', S dquote, S kw1, S dquote, S '' and '', S dquote, S kw2, S dquote,
                 S '' are '', Fx 1 (js_mul similarity (Fin 100)), S ''% similar'']))"

definition analyzeKeywordRelationships :: "string list \<Rightarrow> entry list" where
  "analyzeKeywordRelationships keywords =
     (LInfo, [S newline, S ''Keyword Relationship Analysis:''])
     # (if length (similarities keywords) > 0
        then (LWarn, [S ''Potentially competing keywords found:''])
             # map competingLine (similarities keywords)
             @ [(LInfo, [S ''Consider focusing on more distinct keywords to avoid keyword cannibalization''])]
        else [(LSuccess, [S ''Keywords are sufficiently distinct from each other''])])"

section \<open>Keyword usage\<close>

definition analyzingLine :: "nat \<Rightarrow> string \<Rightarrow> entry" where
  "analyzingLine index keyword =
     (LInfo, [S newline, N (num (index + 1)), S ''. Analyzing keyword: '', S dquote, S keyword, S dquote])"

text \<open>
  The \<open>forEach\<close> over the keywords: the lines logged, and how it ended. An exception of
  \<open>analyzeKeyword\<close> ends it after the line that names the keyword.
\<close>

fun forEachKeyword :: "Document \<Rightarrow> (nat \<times> string) list \<Rightarrow> entry list \<times> (error + unit)" where
  "forEachKeyword document [] = ([], Inr ())"
| "forEachKeyword document ((index, keyword) # rest) =
     (case analyzeKeyword document keyword of
        Inl e \<Rightarrow> ([analyzingLine index keyword], Inl e)
      | Inr analysis \<Rightarrow>
          (case forEachKeyword document rest of
             (lines, r) \<Rightarrow> (analyzingLine index keyword # displayResults analysis keyword @ lines, r)))"

text \<open>
  What the loop logs for one keyword: the line that names it and, when its analysis
  returns, the lines of \<open>displayResults\<close>.
\<close>

definition keywordReport :: "Document \<Rightarrow> nat \<times> string \<Rightarrow> entry list" where
  "keywordReport document ik =
     (case ik of (index, keyword) \<Rightarrow>
        analyzingLine index keyword
        # (case analyzeKeyword document keyword of
             Inl e \<Rightarrow> []
           | Inr analysis \<Rightarrow> displayResults analysis keyword))"

definition splitKeywords :: "string \<Rightarrow> string list" where
  "splitKeywords keywordsInput =
     filter (\<lambda>k. length k > 0) (map trim (splitChar CHR '','' keywordsInput))"

definition analyzeKeywordUsage :: "Document \<Rightarrow> string \<Rightarrow> entry list \<times> (error + unit)" where
  "analyzeKeywordUsage document keywordsInput =
     (if trim keywordsInput = [] then ([(LError, [S ''No keywords provided''])], Inr ())
      else (let keywords = splitKeywords keywordsInput;
                heading = (LInfo, [S newline, S ''Analyzing '', N (num (length keywords)), S '' keywords:''])
            in case forEachKeyword document (enumerate 0 keywords) of
                 (lines, Inl e) \<Rightarrow> (heading # lines, Inl e)
               | (lines, Inr u) \<Rightarrow>
                   (heading # lines
                      @ (if length keywords > 1 then analyzeKeywordRelationships keywords else []),
                    Inr ())))"

section \<open>Readability scorer\<close>

record ReadabilityMetrics =
  fleschEase :: jsnum
  fleschKincaid :: jsnum
  gunningFog :: jsnum
  colemanLiau :: jsnum
  averageWordsPerSentence :: jsnum
  averageSyllablesPerWord :: jsnum
  totalWords :: nat
  totalSentences :: nat
  complexWords :: nat
  lix :: jsnum
  longWords :: nat

definition isSentenceEnd :: "char \<Rightarrow> bool" where
  "isSentenceEnd c = (c \<in> set ''.!?'')"

text \<open>\<open>text.split(/\s+/).filter(word => word.length > 0)\<close>\<close>

definition wordsOf :: "string \<Rightarrow> string list" where
  "wordsOf text = filter (\<lambda>word. length word > 0) (splitRuns isSpace text)"

text \<open>\<open>text.split(/[.!?]+/).filter(sentence => sentence.trim().length > 0)\<close>\<close>

definition sentencesOf :: "string \<Rightarrow> string list" where
  "sentencesOf text = filter (\<lambda>sentence. length (trim sentence) > 0) (splitRuns isSentenceEnd text)"

definition calculateLIX :: "string \<Rightarrow> jsnum" where
  "calculateLIX text =
     (let words = wordsOf text;
          sentences = sentencesOf text;
          longW = length (filter (\<lambda>word. length word > 6) words)
      in js_add (js_div (num (length words)) (num (length sentences)))
                (js_div (num (longW * 100)) (num (length words))))"

definition calculateMetrics :: "string \<Rightarrow> string \<Rightarrow> ReadabilityMetrics" where
  "calculateMetrics text language =
     (let words = wordsOf text;
          sentences = sentencesOf text;
          totalSyllables = countSyllables text;
          complexW = length (filter (\<lambda>word. countWordSyllables word > 2) words);
          totalW = length words;
          totalS = length sentences;
          avgWordsPerSentence = js_div (num totalW) (num totalS);
          avgSyllablesPerWord = js_div (num totalSyllables) (num totalW);
          chars = length (filter (\<lambda>c. \<not> isSpace c) text);
          avgCharsPerWord = js_div (num chars) (num totalW)
      in \<lparr> fleschEase =
             js_sub (js_sub (Fin 206.835) (js_mul (Fin 1.015) avgWordsPerSentence))
                    (js_mul (Fin 84.6) avgSyllablesPerWord),
           fleschKincaid =
             js_sub (js_add (js_mul (Fin 0.39) avgWordsPerSentence)
                            (js_mul (Fin 11.8) avgSyllablesPerWord))
                    (Fin 15.59),
           gunningFog =
             js_mul (Fin 0.4)
               (js_add avgWordsPerSentence
                  (js_mul (Fin 100) (js_div (num complexW) (num totalW)))),
           colemanLiau =
             js_sub (js_sub (js_mul (Fin 0.0588) (js_mul avgCharsPerWord (Fin 100)))
                            (js_mul (Fin 0.296)
                               (js_mul (js_div (num totalS) (num totalW)) (Fin 100))))
                    (Fin 15.8),
           averageWordsPerSentence = avgWordsPerSentence,
           averageSyllablesPerWord = avgSyllablesPerWord,
           totalWords = totalW,
           totalSentences = totalS,
           complexWords = complexW,
           lix = calculateLIX text,
           longWords = length (filter (\<lambda>word. length word > 15) words) \<rparr>)"

definition getReadabilityGrade :: "jsnum \<Rightarrow> string" where
  "getReadabilityGrade score =
     (if js_ge score (Fin 90) then ''Very Easy (5th grade)''
      else if js_ge score (Fin 80) then ''Easy (6th grade)''
      else if js_ge score (Fin 70) then ''Fairly Easy (7th grade)''
      else if js_ge score (Fin 60) then ''Standard (8th-9th grade)''
      else if js_ge score (Fin 50) then ''Fairly Difficult (10th-12th grade)''
      else if js_ge score (Fin 30) then ''Difficult (College)''
      else ''Very Difficult (College graduate)'')"

definition getLIXGrade :: "jsnum \<Rightarrow> string" where
  "getLIXGrade score =
     (if js_lt score (Fin 30) then ''Very Easy''
      else if js_lt score (Fin 40) then ''Easy''
      else if js_lt score (Fin 50) then ''Moderate''
      else if js_lt score (Fin 60) then ''Difficult''
      else ''Very Difficult'')"

definition getReadabilityRecommendations :: "ReadabilityMetrics \<Rightarrow> string \<Rightarrow> string list" where
  "getReadabilityRecommendations metrics language =
     (if language = ''sv''
      then (if js_gt (averageWordsPerSentence metrics) (Fin 15)
            then [''Consider shortening your sentences (aim for 15 words per sentence for Swedish text)'']
            else [])
           @ (if truthy (lix metrics) \<and> js_gt (lix metrics) (Fin 50)
              then [''Text might be too difficult for general audience (aim for LIX below 50)'']
              else [])
      else (if js_gt (averageWordsPerSentence metrics) (Fin 20)
            then [''Consider shortening your sentences (aim for 15-20 words per sentence)'']
            else [])
           @ (if js_gt (js_div (num (complexWords metrics)) (num (totalWords metrics))) (Fin 0.2)
              then [''Try using simpler words (too many complex words)'']
              else [])
           @ (if truthy (fleschEase metrics) \<and> js_lt (fleschEase metrics) (Fin 60)
              then [''Content might be too difficult for general audience (aim for score above 60)'']
              else []))"

section \<open>Content analyzer\<close>

text \<open>
  The text-improvement service is outside the analyzer: it is a parameter, from the
  text, the kind of text and the constraints to the improved text (\<open>Inr\<close>) or to the
  message of the error it fails with (\<open>Inl\<close>).
\<close>

record constraints =
  maxLength :: "nat option"
  targetReadingLevel :: "string option"

type_synonym improver = "string \<Rightarrow> string \<Rightarrow> constraints \<Rightarrow> string + string"

definition suggestion :: "string + string \<Rightarrow> entry list" where
  "suggestion r =
     (case r of
        Inr improved \<Rightarrow>
          if improved \<noteq> [] then [(LInfo, [S ''Suggested improvement:'']), (LInfo, [S improved])]
          else []
      | Inl message \<Rightarrow> [(LWarn, [S ''Could not generate improvement suggestion: '', S message])])"

definition analyzeSentence :: "improver \<Rightarrow> nat \<Rightarrow> string \<Rightarrow> entry list" where
  "analyzeSentence improveText index sentence =
     (let sentenceWords = length (splitRuns isSpace (trim sentence))
      in if sentenceWords > 20
         then (LWarn, [S ''Long sentence in paragraph '', N (num (index + 1)), S '' ('',
                       N (num sentenceWords), S '' words): '', S dquote, S (trim sentence), S dquote])
              # suggestion (improveText (trim sentence) ''sentence''
                              \<lparr> maxLength = Some 150, targetReadingLevel = None \<rparr>)
         else [])"

definition analyzeParagraph :: "improver \<Rightarrow> nat \<Rightarrow> string \<Rightarrow> entry list" where
  "analyzeParagraph improveText index paragraph =
     (let text = trim paragraph
      in if length text = 0 then []
         else (let words = wordsOf text
               in (if length words > 40
                   then (LWarn, [S ''Paragraph '', N (num (index + 1)), S '' is quite long ('',
                                 N (num (length words)), S '' words).''])
                        # suggestion (improveText text ''paragraph''
                                        \<lparr> maxLength = None, targetReadingLevel = Some ''grade 8'' \<rparr>)
                   else [])
                  @ concat (map (analyzeSentence improveText index) (sentencesOf text))))"

definition languageOf :: "Document \<Rightarrow> string" where
  "languageOf document =
     (let first = (case splitChar CHR ''-'' (toLowerCase (lang document)) of [] \<Rightarrow> [] | x # _ \<Rightarrow> x)
      in if first = [] then ''en'' else first)"

definition fullTextOf :: "Document \<Rightarrow> string" where
  "fullTextOf document = join '' '' (filter (\<lambda>t. t \<noteq> []) (map trim (paragraphs document)))"

definition readabilityLines :: "ReadabilityMetrics \<Rightarrow> string \<Rightarrow> entry list" where
  "readabilityLines metrics language =
     (if language = ''sv''
      then [(LInfo, [S ''LIX Score: '', N (Math_round (lix metrics)), S '' ('',
                     S (getLIXGrade (lix metrics)), S '')''])]
      else [(LInfo, [S ''Flesch Reading Ease: '', N (Math_round (fleschEase metrics)), S '' ('',
                     S (getReadabilityGrade (fleschEase metrics)), S '')'']),
            (LInfo, [S ''Flesch-Kincaid Grade Level: '', N (Math_round (fleschKincaid metrics))]),
            (LInfo, [S ''Gunning Fog Index: '', N (Math_round (gunningFog metrics))]),
            (LInfo, [S ''Coleman-Liau Index: '', N (Math_round (colemanLiau metrics))])])"

definition statisticsLines :: "ReadabilityMetrics \<Rightarrow> string \<Rightarrow> entry list" where
  "statisticsLines metrics language =
     [(LInfo, [S ''Total Words: '', N (num (totalWords metrics))]),
      (LInfo, [S ''Total Sentences: '', N (num (totalSentences metrics))]),
      (LInfo, [S ''Average Words per Sentence: '',
               N (js_div (Math_round (js_mul (averageWordsPerSentence metrics) (Fin 10))) (Fin 10))]),
      (if language = ''sv''
       then (LInfo, [S ''Long Words: '', N (num (longWords metrics)), S '' ('',
                     N (Math_round (js_mul (js_div (num (longWords metrics)) (num (totalWords metrics)))
                                       (Fin 100))), S ''%)''])
       else (LInfo, [S ''Complex Words: '', N (num (complexWords metrics)), S '' ('',
                     N (Math_round (js_mul (js_div (num (complexWords metrics)) (num (totalWords metrics)))
                                       (Fin 100))), S ''%)'']))]"

definition analyzeContent :: "improver \<Rightarrow> Document \<Rightarrow> entry list" where
  "analyzeContent improveText document =
     (let language = languageOf document
      in if length (paragraphs document) = 0
         then [(LWarn, [S ''No paragraph content found to analyze''])]
         else (let metrics = calculateMetrics (fullTextOf document) language;
                   recs = getReadabilityRecommendations metrics language
               in (LStep, [S ''Content Structure Analysis:''])
                  # concat (map (\<lambda>(index, paragraph). analyzeParagraph improveText index paragraph)
                              (enumerate 0 (paragraphs document)))
                  @ [(LStep, [S ''Readability Analysis:''])]
                  @ readabilityLines metrics language
                  @ [(LStep, [S ''Content Statistics:''])]
                  @ statisticsLines metrics language
                  @ (if length recs > 0
                     then (LStep, [S ''Recommendations:'']) # map (\<lambda>rec. (LWarn, [S rec])) recs
                     else [])))"

section \<open>Example documents\<close>

text \<open>
  A page of two headings and nothing else: a first-level heading that ends in a space,
  followed by a second-level heading.
\<close>

definition headingsDocument :: Document where
  "headingsDocument =
     \<lparr> lang = ''en'', bodyText = ''clean energy'', title = None, paragraphs = [],
       h1Elements = [''clean ''], h2Elements = [''energy''], h3Elements = [],
       metaDescription = None, pathname = ''/'' \<rparr>"

text \<open>A page whose body is one text, its words joined by hyphens.\<close>

definition repeatedDocument :: Document where
  "repeatedDocument =
     \<lparr> lang = ''en'', bodyText = ''a-a-a'', title = None, paragraphs = [],
       h1Elements = [], h2Elements = [], h3Elements = [],
       metaDescription = None, pathname = ''/'' \<rparr>"

text \<open>
  A page about clean energy: a first-level heading, a paragraph and two second-level
  headings, with a space between the elements.
\<close>

definition energyDocument :: Document where
  "energyDocument =
     \<lparr> lang = ''en'',
       bodyText = ''Clean energy Clean energy solutions for a clean energy future. Energy now More energy'',
       title = Some ''Clean Energy'',
       paragraphs = [''Clean energy solutions for a clean energy future.''],
       h1Elements = [''Clean energy''], h2Elements = [''Energy now'', ''More energy''], h3Elements = [],
       metaDescription = None, pathname = ''/clean-energy'' \<rparr>"

text \<open>A page whose paragraphs are empty or blank.\<close>

definition blankDocument :: Document where
  "blankDocument =
     \<lparr> lang = ''en'', bodyText = ''  '', title = None, paragraphs = [[], ''  ''],
       h1Elements = [], h2Elements = [], h3Elements = [],
       metaDescription = None, pathname = ''/'' \<rparr>"

text \<open>A page whose only paragraph is an ellipsis.\<close>

definition ellipsisDocument :: Document where
  "ellipsisDocument =
     \<lparr> lang = ''en'', bodyText = ''...'', title = None, paragraphs = [''...''],
       h1Elements = [], h2Elements = [], h3Elements = [],
       metaDescription = None, pathname = ''/'' \<rparr>"

text \<open>A text-improvement service that always fails.\<close>

definition noImprovement :: improver where
  "noImprovement text kind c = Inl ''service unavailable''"

section \<open>The normalizer is idempotent\<close>

lemma toLowerChar_idem: "toLowerChar (toLowerChar c) = toLowerChar c"
  by (auto simp: toLowerChar_def Let_def)

lemma toLowerChar_space: "toLowerChar (CHR '' '') = CHR '' ''"
  by code_simp

lemma set_replaceRuns: "set (replaceRuns P r s) \<subseteq> set r \<union> set s"
  by (induction P r s rule: replaceRuns.induct) (auto dest: set_dropWhileD)

lemma set_trim: "set (trim s) \<subseteq> set s"
  by (auto simp: trim_def dest!: set_dropWhileD)

lemma wsnf_Cons: "wsnf (c # t) \<longleftrightarrow>
   (isSpace c \<longrightarrow> c = CHR '' '' \<and> (t = [] \<or> \<not> isSpace (hd t))) \<and> wsnf t"
  by (cases t) auto

lemma replaceRuns_hd:
  "s = [] \<or> \<not> P (hd s) \<Longrightarrow> replaceRuns P r s = [] \<or> \<not> P (hd (replaceRuns P r s))"
  by (cases s) auto

lemma dropWhile_hd: "dropWhile P s = [] \<or> \<not> P (hd (dropWhile P s))"
  using hd_dropWhile by blast

lemma wsnf_replaceRuns: "wsnf (replaceRuns isSpace '' '' s)"
proof (induction "isSpace" "'' ''" s rule: replaceRuns.induct)
  case 1
  then show ?case by simp
next
  case (2 c cs)
  show ?case
  proof (cases "isSpace c")
    case True
    have "replaceRuns isSpace '' '' (dropWhile isSpace cs) = [] \<or>
          \<not> isSpace (hd (replaceRuns isSpace '' '' (dropWhile isSpace cs)))"
      by (rule replaceRuns_hd) (rule dropWhile_hd)
    with True 2 show ?thesis by (simp add: wsnf_Cons)
  next
    case False
    with 2 show ?thesis by (simp add: wsnf_Cons)
  qed
qed

lemma wsnf_append_left: "wsnf (xs @ ys) \<Longrightarrow> wsnf xs"
  by (induction xs rule: wsnf.induct) (auto simp: wsnf_Cons)

lemma wsnf_append_right: "wsnf (xs @ ys) \<Longrightarrow> wsnf ys"
  by (induction xs) (auto simp: wsnf_Cons)

lemma wsnf_dropWhile: "wsnf s \<Longrightarrow> wsnf (dropWhile P s)"
  by (metis takeWhile_dropWhile_id wsnf_append_right)

lemma rev_dropWhile_prefix: "u = rev (dropWhile P (rev u)) @ rev (takeWhile P (rev u))"
  by (metis rev_append rev_rev_ident takeWhile_dropWhile_id)

lemma trim_prefix: "dropWhile isSpace s = trim s @ rev (takeWhile isSpace (rev (dropWhile isSpace s)))"
  unfolding trim_def by (rule rev_dropWhile_prefix)

lemma wsnf_trim: "wsnf s \<Longrightarrow> wsnf (trim s)"
  by (metis trim_prefix wsnf_append_left wsnf_dropWhile)

lemma dropWhile_id: "xs = [] \<or> \<not> P (hd xs) \<Longrightarrow> dropWhile P xs = xs"
  by (cases xs) auto

lemma trim_hd: "trim s = [] \<or> \<not> isSpace (hd (trim s))"
proof (cases "trim s")
  case Nil
  then show ?thesis by simp
next
  case (Cons a list)
  then have "hd (dropWhile isSpace s) = a" using trim_prefix [of s] by (metis append_Cons list.sel(1))
  moreover have "dropWhile isSpace s \<noteq> []" using trim_prefix [of s] Cons by (metis append_Cons list.distinct(1))
  ultimately show ?thesis using Cons hd_dropWhile [of isSpace s] by simp
qed

lemma trim_idem: "trim (trim s) = trim s"
proof -
  have "dropWhile isSpace (trim s) = trim s" by (rule dropWhile_id) (rule trim_hd)
  then have "trim (trim s) = rev (dropWhile isSpace (rev (trim s)))" by (simp add: trim_def)
  also have "\<dots> = trim s" by (simp add: trim_def)
  finally show ?thesis .
qed

lemma replaceRuns_wsnf: "wsnf s \<Longrightarrow> replaceRuns isSpace '' '' s = s"
  by (induction s) (auto simp: wsnf_Cons dropWhile_id)

lemma normalizeText_chars:
  assumes "c \<in> set (normalizeText x)"
  shows "toLowerChar c = c \<and> c \<notin> set punctuation"
proof -
  from assms have "c \<in> set '' '' \<union> set (filter (\<lambda>c. c \<notin> set punctuation) (toLowerCase x))"
    unfolding normalizeText_def using set_trim set_replaceRuns by blast
  then show ?thesis
    by (auto simp: toLowerCase_def toLowerChar_idem toLowerChar_space) (simp add: punctuation_def)
qed

lemma normalizeText_wsnf: "wsnf (normalizeText x)"
  unfolding normalizeText_def by (rule wsnf_trim) (rule wsnf_replaceRuns)

text \<open>
  Claim C7. \<open>normalizeText\<close> is idempotent: normalizing a normalized string changes
  nothing. It is a total function on strings, and the empty string is mapped to the empty
  string.
\<close>

theorem normalizeText_idempotent:
  "normalizeText (normalizeText x) = normalizeText x \<and> normalizeText [] = []"
proof -
  let ?y = "normalizeText x"
  have 1: "toLowerCase ?y = ?y"
    unfolding toLowerCase_def by (rule map_idI) (simp add: normalizeText_chars)
  have 2: "filter (\<lambda>c. c \<notin> set punctuation) ?y = ?y"
    by (simp add: normalizeText_chars)
  have 3: "replaceRuns isSpace '' '' ?y = ?y"
    by (rule replaceRuns_wsnf) (rule normalizeText_wsnf)
  have 4: "trim ?y = ?y"
    unfolding normalizeText_def by (rule trim_idem)
  have "normalizeText ?y = trim (replaceRuns isSpace '' '' (filter (\<lambda>c. c \<notin> set punctuation) (toLowerCase ?y)))"
    by (simp only: normalizeText_def)
  also have "\<dots> = ?y" by (simp only: 1 2 3 4)
  finally have "normalizeText ?y = ?y" .
  moreover have "normalizeText [] = []" by (simp add: normalizeText_def toLowerCase_def trim_def)
  ultimately show ?thesis by simp
qed

section \<open>The occurrence finder can throw\<close>

text \<open>
  Claim C10. \<open>findKeywordOccurrences\<close> is not total: the keyword \<open>c++\<close> is left as it
  is by \<open>normalizeText\<close> (the plus sign is not in the punctuation class), it is a
  single word, and the pattern built from it is not a regular expression, so that the
  constructor throws a syntax error whatever the text is.
\<close>

theorem findKeywordOccurrences_not_total:
  "CHR ''+'' \<notin> set punctuation
   \<and> normalizeText ''c++'' = ''c++''
   \<and> length (splitChar CHR '' '' (normalizeText ''c++'')) = 1
   \<and> RegExp_gi ([backslash, CHR ''b''] @ ''c++'' @ [backslash, CHR ''b'']) = Inl SyntaxError
   \<and> findKeywordOccurrences text ''c++'' = Inl SyntaxError"
proof -
  have p: "CHR ''+'' \<notin> set punctuation" by code_simp
  have n: "normalizeText ''c++'' = ''c++''" by code_simp
  have l: "length (splitChar CHR '' '' ''c++'') = 1" by code_simp
  have r: "RegExp_gi ([backslash, CHR ''b''] @ ''c++'' @ [backslash, CHR ''b'']) = Inl SyntaxError"
    by code_simp
  have "findKeywordOccurrences text ''c++'' = Inl SyntaxError"
    unfolding findKeywordOccurrences_def Let_def n using l r by simp
  with p n l r show ?thesis by simp
qed

section \<open>Keyword similarity\<close>

lemma Set_new_foldl:
  "distinct s \<Longrightarrow>
     distinct (foldl (\<lambda>s x. if x \<in> set s then s else s @ [x]) s xs)
     \<and> set (foldl (\<lambda>s x. if x \<in> set s then s else s @ [x]) s xs) = set s \<union> set xs"
  by (induction xs arbitrary: s) auto

lemma set_Set_new: "set (Set_new xs) = set xs"
  using Set_new_foldl [of "[]" xs] by (simp add: Set_new_def)

lemma distinct_Set_new: "distinct (Set_new xs)"
  using Set_new_foldl [of "[]" xs] by (simp add: Set_new_def)

lemma length_Set_new: "length (Set_new xs) = card (set xs)"
  by (metis distinct_Set_new set_Set_new distinct_card)

lemma splitChar_nonempty: "splitChar d s \<noteq> []"
  by (induction s) (auto split: list.splits)

lemma wordSet_nonempty: "wordSet k \<noteq> {}"
  by (simp add: wordSet_def splitChar_nonempty)

lemma calculateSimilarity_eq:
  "calculateSimilarity a b = Fin (real (card (wordSet a \<inter> wordSet b)) / real (card (wordSet a \<union> wordSet b)))"
proof -
  let ?s1 = "Set_new (splitChar CHR '' '' (toLowerCase a))"
  let ?s2 = "Set_new (splitChar CHR '' '' (toLowerCase b))"
  have "finite (wordSet a \<union> wordSet b)" by (simp add: wordSet_def)
  then have u0: "card (wordSet a \<union> wordSet b) \<noteq> 0" using wordSet_nonempty by auto
  have i: "length (Set_new (filter (\<lambda>x. x \<in> set ?s2) ?s1)) = card (wordSet a \<inter> wordSet b)"
  proof -
    have "set (filter (\<lambda>x. x \<in> set ?s2) ?s1) = wordSet a \<inter> wordSet b"
      by (auto simp: wordSet_def set_Set_new)
    then show ?thesis by (simp add: length_Set_new)
  qed
  have u: "length (Set_new (?s1 @ ?s2)) = card (wordSet a \<union> wordSet b)"
    by (simp add: length_Set_new set_Set_new wordSet_def)
  have "calculateSimilarity a b
          = js_div (num (card (wordSet a \<inter> wordSet b))) (num (card (wordSet a \<union> wordSet b)))"
    unfolding calculateSimilarity_def Let_def by (simp only: i u)
  then show ?thesis using u0 by (simp add: num_def)
qed

text \<open>
  Claim C3, as amended. \<open>calculateSimilarity\<close> is the Jaccard index of the two lowercase,
  space-split word sets; it is symmetric, 0 on disjoint sets and 1 on equal sets. It is
  never not-a-number: a split yields at least one word, so the union is never empty, and
  for two empty keywords both sets are the set of the empty word and the result is 1.
\<close>

theorem calculateSimilarity_jaccard:
  "calculateSimilarity a b
     = Fin (real (card (wordSet a \<inter> wordSet b)) / real (card (wordSet a \<union> wordSet b)))
   \<and> calculateSimilarity a b = calculateSimilarity b a
   \<and> (wordSet a \<inter> wordSet b = {} \<longrightarrow> calculateSimilarity a b = Fin 0)
   \<and> (wordSet a = wordSet b \<longrightarrow> calculateSimilarity a b = Fin 1)
   \<and> calculateSimilarity a b \<noteq> NaN
   \<and> wordSet [] = {[]}
   \<and> calculateSimilarity [] [] = Fin 1"
proof -
  have fin: "finite (wordSet a)" by (simp add: wordSet_def)
  have sym: "calculateSimilarity a b = calculateSimilarity b a"
    by (simp add: calculateSimilarity_eq Int_commute Un_commute)
  have one: "wordSet a = wordSet b \<Longrightarrow> calculateSimilarity a b = Fin 1"
    using fin wordSet_nonempty [of a] by (simp add: calculateSimilarity_eq)
  have e: "wordSet [] = {[]}" by (simp add: wordSet_def toLowerCase_def)
  show ?thesis using sym one e 
    by (auto simp: calculateSimilarity_eq)
qed

text \<open>The two conditional parts at concrete keywords.\<close>

theorem calculateSimilarity_jaccard_witness:
  "calculateSimilarity ''Solar energy'' ''wind power'' = Fin 0
   \<and> calculateSimilarity ''Solar energy'' ''energy solar'' = Fin 1"
proof -
  have d: "wordSet ''Solar energy'' \<inter> wordSet ''wind power'' = {}"
    unfolding wordSet_def by code_simp
  have i: "wordSet ''Solar energy'' = wordSet ''energy solar''"
    unfolding wordSet_def by code_simp
  show ?thesis
    using calculateSimilarity_jaccard [of "''Solar energy''" "''wind power''"]
          calculateSimilarity_jaccard [of "''Solar energy''" "''energy solar''"] d i
    by blast
qed

text \<open>Claim C3 as stated fails: for two empty keywords the result is 1, not 0.\<close>

theorem calculateSimilarity_empty_counterexample:
  "calculateSimilarity [] [] = Fin 1 \<and> calculateSimilarity [] [] \<noteq> Fin 0"
  by code_simp

section \<open>Competing keywords\<close>

lemma in_concat_map: "x \<in> set xs \<Longrightarrow> y \<in> set (f x) \<Longrightarrow> y \<in> set (concat (map f xs))"
  by auto

lemma similarities_iff:
  "((a, b, s) \<in> set (similarities keywords))
     = (\<exists>i j. i < j \<and> j < length keywords \<and> a = keywords ! i \<and> b = keywords ! j
              \<and> s = calculateSimilarity a b \<and> js_gt s (Fin 0.3))"
proof
  assume "(a, b, s) \<in> set (similarities keywords)"
  then obtain i j where "i < length keywords" "Suc i \<le> j" "j < length keywords"
    "js_gt (calculateSimilarity (keywords ! i) (keywords ! j)) (Fin 0.3)"
    "(a, b, s) = (keywords ! i, keywords ! j, calculateSimilarity (keywords ! i) (keywords ! j))"
    unfolding similarities_def Let_def by (auto split: if_splits)
  then show "\<exists>i j. i < j \<and> j < length keywords \<and> a = keywords ! i \<and> b = keywords ! j
              \<and> s = calculateSimilarity a b \<and> js_gt s (Fin 0.3)"
    by (intro exI [of _ i] exI [of _ j]) simp
next
  assume "\<exists>i j. i < j \<and> j < length keywords \<and> a = keywords ! i \<and> b = keywords ! j
              \<and> s = calculateSimilarity a b \<and> js_gt s (Fin 0.3)"
  then obtain i j where ij: "i < j" "j < length keywords" "a = keywords ! i" "b = keywords ! j"
    "s = calculateSimilarity a b" "js_gt s (Fin 0.3)" by blast
  let ?inner = "\<lambda>i. concat (map (\<lambda>j.
         (let similarity = calculateSimilarity (keywords ! i) (keywords ! j)
          in if js_gt similarity (Fin 0.3) then [(keywords ! i, keywords ! j, similarity)] else []))
         [i + 1 ..< length keywords])"
  have jm: "j \<in> set [i + 1 ..< length keywords]" using ij by simp
  have im: "i \<in> set [0 ..< length keywords]" using ij by simp
  have "(a, b, s) \<in> set (?inner i)"
    by (rule in_concat_map [OF jm]) (use ij in \<open>simp add: Let_def\<close>)
  then have "(a, b, s) \<in> set (concat (map ?inner [0 ..< length keywords]))"
    by (rule in_concat_map [OF im])
  then show "(a, b, s) \<in> set (similarities keywords)"
    unfolding similarities_def .
qed

lemma js_mul_100_inj: "js_mul c (Fin 100) = js_mul c' (Fin 100) \<Longrightarrow> c = c'"
  by (cases c; cases c') (simp_all add: signed_inf_def)

lemma competingLine_inj: "competingLine t = competingLine t' \<Longrightarrow> t = t'"
  by (cases t; cases t') (auto simp: competingLine_def dest: js_mul_100_inj)

lemma competing_reported_iff:
  "(competingLine t \<in> set (analyzeKeywordRelationships keywords)) = (t \<in> set (similarities keywords))"
proof -
  have a: "competingLine t \<noteq> (LInfo, m)" for m
    by (cases t) (simp add: competingLine_def)
  have b: "competingLine t \<noteq> (l, [x])" for l x
    by (cases t) (simp add: competingLine_def)
  have c: "(competingLine t \<in> competingLine ` set (similarities keywords)) = (t \<in> set (similarities keywords))"
    using competingLine_inj by blast
  show ?thesis
    by (cases "similarities keywords = []") (simp_all add: analyzeKeywordRelationships_def a b c)
qed

text \<open>
  Claim C6. A pair of keywords is reported as potentially competing exactly when it is a
  pair of the list, in list order, whose similarity is strictly greater than 0.3. The
  similarity of \<open>solar energy\<close> and \<open>solar power\<close> is 1/3 and the pair is collected;
  a pair of similarity exactly 0.3 is not, and the keywords are reported as distinct.
\<close>

theorem competing_threshold_exclusive:
  "(competingLine (a, b, s) \<in> set (analyzeKeywordRelationships keywords))
     = (\<exists>i j. i < j \<and> j < length keywords \<and> a = keywords ! i \<and> b = keywords ! j
              \<and> s = calculateSimilarity a b \<and> js_gt s (Fin 0.3))
   \<and> calculateSimilarity ''solar energy'' ''solar power'' = Fin (1 / 3)
   \<and> similarities [''solar energy'', ''solar power'']
        = [(''solar energy'', ''solar power'', Fin (1 / 3))]
   \<and> calculateSimilarity ''a b c d e f'' ''a b c g h i j'' = Fin 0.3
   \<and> similarities [''a b c d e f'', ''a b c g h i j''] = []
   \<and> analyzeKeywordRelationships [''a b c d e f'', ''a b c g h i j'']
        = [(LInfo, [S newline, S ''Keyword Relationship Analysis:'']),
           (LSuccess, [S ''Keywords are sufficiently distinct from each other''])]"
proof -
  have 1: "calculateSimilarity ''solar energy'' ''solar power'' = Fin (1 / 3)" by code_simp
  have 2: "similarities [''solar energy'', ''solar power'']
        = [(''solar energy'', ''solar power'', Fin (1 / 3))]" by code_simp
  have 3: "calculateSimilarity ''a b c d e f'' ''a b c g h i j'' = Fin 0.3" by code_simp
  have 4: "similarities [''a b c d e f'', ''a b c g h i j''] = []" by code_simp
  have 5: "analyzeKeywordRelationships [''a b c d e f'', ''a b c g h i j'']
        = [(LInfo, [S newline, S ''Keyword Relationship Analysis:'']),
           (LSuccess, [S ''Keywords are sufficiently distinct from each other''])]"
    by (simp add: analyzeKeywordRelationships_def 4)
  show ?thesis
    by (simp only: competing_reported_iff similarities_iff 1 2 3 4 5 simp_thms)
qed

section \<open>Keyword placement\<close>

lemma analyzeKeyword_Inr:
  assumes "analyzeKeyword doc kw = Inr r"
  shows "\<exists>occs inT inP c1 c2 c3 inM.
      findKeywordOccurrences (bodyText doc) kw = Inr occs
    \<and> findKeywordOccurrences (orEmpty (title doc)) kw = Inr inT
    \<and> findKeywordOccurrences (case paragraphs doc of [] \<Rightarrow> [] | p # _ \<Rightarrow> p) kw = Inr inP
    \<and> countInElements (h1Elements doc) kw 0 = Inr c1
    \<and> countInElements (h2Elements doc) kw 0 = Inr c2
    \<and> countInElements (h3Elements doc) kw 0 = Inr c3
    \<and> findKeywordOccurrences (orEmpty (metaDescription doc)) kw = Inr inM
    \<and> r = \<lparr> density = js_mul (js_div (num (length occs * length (splitRuns isSpace kw)))
                                  (num (length (splitRuns isSpace (normalizeText (bodyText doc))))))
                          (num 100),
             count = length occs,
             inTitle = (length inT > 0),
             inFirstParagraph = (length inP > 0),
             inHeadings = \<lparr> h1 = c1, h2 = c2, h3 = c3 \<rparr>,
             inMetaDescription = (length inM > 0),
             inUrl = String_includes (normalizeText (pathname doc))
                       (replaceRuns isSpace ''-'' (normalizeText kw)),
             occurrences = occs \<rparr>"
  using assms unfolding analyzeKeyword_def andThen_def Let_def
  by (auto split: sum.splits)

lemma countInElements_Inr:
  "countInElements els kw n = Inr m \<Longrightarrow>
     \<exists>counts. map (\<lambda>el. countKeywordInText el kw) els = map Inr counts \<and> m = n + sum_list counts"
proof (induction els arbitrary: n)
  case Nil
  then show ?case by simp
next
  case (Cons el els)
  from Cons.prems obtain found where f: "findKeywordOccurrences el kw = Inr found"
    and r: "countInElements els kw (n + length found) = Inr m"
    by (auto simp: andThen_def split: sum.splits)
  from Cons.IH [OF r] obtain counts where
    c: "map (\<lambda>el. countKeywordInText el kw) els = map Inr counts" "m = n + length found + sum_list counts"
    by auto
  show ?case
    by (rule exI [of _ "length found # counts"]) (use c f in \<open>simp add: countKeywordInText_def\<close>)
qed

lemma splitRuns_nonempty: "splitRuns P s \<noteq> []"
  by (subst splitRuns.simps) (simp split: list.splits)

text \<open>
  Claim C4, as amended. When \<open>analyzeKeyword\<close> returns, the three heading counts add up
  to the sum, over all H1, H2 and H3 elements, of the number of occurrences in the text of
  that element: the finder runs once on each element, not once on a concatenation.
\<close>

theorem heading_counts_sum:
  assumes "analyzeKeyword doc kw = Inr r"
  shows "\<exists>counts.
           map (\<lambda>el. countKeywordInText el kw) (h1Elements doc @ h2Elements doc @ h3Elements doc)
             = map Inr counts
         \<and> h1 (inHeadings r) + h2 (inHeadings r) + h3 (inHeadings r) = sum_list counts"
proof -
  from analyzeKeyword_Inr [OF assms] obtain c1 c2 c3 where
    c: "countInElements (h1Elements doc) kw 0 = Inr c1"
       "countInElements (h2Elements doc) kw 0 = Inr c2"
       "countInElements (h3Elements doc) kw 0 = Inr c3"
    and h: "inHeadings r = \<lparr> h1 = c1, h2 = c2, h3 = c3 \<rparr>"
    by auto
  from c(1) obtain k1 where k1: "map (\<lambda>el. countKeywordInText el kw) (h1Elements doc) = map Inr k1" "c1 = sum_list k1"
    using countInElements_Inr by fastforce
  from c(2) obtain k2 where k2: "map (\<lambda>el. countKeywordInText el kw) (h2Elements doc) = map Inr k2" "c2 = sum_list k2"
    using countInElements_Inr by fastforce
  from c(3) obtain k3 where k3: "map (\<lambda>el. countKeywordInText el kw) (h3Elements doc) = map Inr k3" "c3 = sum_list k3"
    using countInElements_Inr by fastforce
  show ?thesis
    by (rule exI [of _ "k1 @ k2 @ k3"]) (simp add: k1 k2 k3 h)
qed

text \<open>
  Claim C4 as stated fails. With the headings \<open>clean \<close> and \<open>energy\<close> and the keyword
  \<open>clean energy\<close> the three counts are 0, and the finder run on the concatenation of the
  heading texts, joined by nothing or by a space, finds one occurrence.
\<close>

theorem heading_counts_counterexample:
  "analyzeKeyword headingsDocument ''clean energy''
     = Inr \<lparr> density = Fin 100, count = 1, inTitle = False, inFirstParagraph = False,
             inHeadings = \<lparr> h1 = 0, h2 = 0, h3 = 0 \<rparr>, inMetaDescription = False,
             inUrl = False, occurrences = [''clean energy''] \<rparr>
   \<and> countKeywordInText (concat (h1Elements headingsDocument @ h2Elements headingsDocument
                                   @ h3Elements headingsDocument)) ''clean energy'' = Inr 1
   \<and> countKeywordInText (join '' '' (h1Elements headingsDocument @ h2Elements headingsDocument
                                   @ h3Elements headingsDocument)) ''clean energy'' = Inr 1"
  by code_simp

text \<open>The sum at a document with three headings that hold the keyword once each.\<close>

theorem heading_counts_sum_witness:
  "map (\<lambda>el. countKeywordInText el ''energy'')
       (h1Elements energyDocument @ h2Elements energyDocument @ h3Elements energyDocument)
     = map Inr [1, 1, 1]
   \<and> map_sum id (\<lambda>r. h1 (inHeadings r) + h2 (inHeadings r) + h3 (inHeadings r))
        (analyzeKeyword energyDocument ''energy'') = Inr 3"
proof -
  have e: "analyzeKeyword energyDocument ''energy''
     = Inr \<lparr> density = Fin (250 / 7), count = 5, inTitle = True, inFirstParagraph = True,
             inHeadings = \<lparr> h1 = 1, h2 = 2, h3 = 0 \<rparr>, inMetaDescription = False,
             inUrl = True,
             occurrences = [''energy'', ''energy'', ''energy'', ''Energy'', ''energy''] \<rparr>"
    by code_simp
  have m: "map (\<lambda>el. countKeywordInText el ''energy'')
       (h1Elements energyDocument @ h2Elements energyDocument @ h3Elements energyDocument)
     = map Inr [1, 1, 1]"
    by code_simp
  from heading_counts_sum [OF e] m show ?thesis by (simp add: e)
qed

text \<open>
  Claim C5. The density that \<open>analyzeKeyword\<close> returns is the number of occurrences in
  the body text, times the number of whitespace-split tokens of the keyword, divided by
  the number of whitespace-split tokens of the normalized body text, times 100. It is
  never negative and it is not clamped: on the body \<open>a-a-a\<close> the keyword \<open>a\<close> has
  density 300.
\<close>

theorem density_formula:
  assumes "analyzeKeyword doc kw = Inr r"
  shows "\<exists>occs. findKeywordOccurrences (bodyText doc) kw = Inr occs
           \<and> count r = length occs
           \<and> density r = Fin (real (length occs) * real (length (splitRuns isSpace kw))
                                / real (length (splitRuns isSpace (normalizeText (bodyText doc)))) * 100)
           \<and> js_ge (density r) (Fin 0)
           \<and> map_sum id density (analyzeKeyword repeatedDocument ''a'') = Inr (Fin 300)"
proof -
  from analyzeKeyword_Inr [OF assms] obtain occs where
    f: "findKeywordOccurrences (bodyText doc) kw = Inr occs"
    and c: "count r = length occs"
    and d: "density r = js_mul (js_div (num (length occs * length (splitRuns isSpace kw)))
                                  (num (length (splitRuns isSpace (normalizeText (bodyText doc))))))
                          (num 100)"
    by auto
  have "length (splitRuns isSpace (normalizeText (bodyText doc))) \<noteq> 0"
    using splitRuns_nonempty by simp
  then have d': "density r = Fin (real (length occs) * real (length (splitRuns isSpace kw))
                                / real (length (splitRuns isSpace (normalizeText (bodyText doc)))) * 100)"
    by (simp add: d num_def)
  have g: "js_ge (density r) (Fin 0)"
    by (simp add: d' js_ge_def)
  have e: "map_sum id density (analyzeKeyword repeatedDocument ''a'') = Inr (Fin 300)"
    by code_simp
  from f c d' g e show ?thesis by blast
qed

text \<open>The formula at a concrete document: three occurrences of two words in fourteen.\<close>

theorem density_formula_witness:
  "findKeywordOccurrences (bodyText energyDocument) ''clean energy''
      = Inr [''Clean energy'', ''Clean energy'', ''clean energy'']
   \<and> length (splitRuns isSpace ''clean energy'') = 2
   \<and> length (splitRuns isSpace (normalizeText (bodyText energyDocument))) = 14
   \<and> map_sum id density (analyzeKeyword energyDocument ''clean energy'') = Inr (Fin (3 * 2 / 14 * 100))"
proof -
  have e: "analyzeKeyword energyDocument ''clean energy''
     = Inr \<lparr> density = Fin (300 / 7), count = 3, inTitle = True, inFirstParagraph = True,
             inHeadings = \<lparr> h1 = 1, h2 = 0, h3 = 0 \<rparr>, inMetaDescription = False,
             inUrl = False,
             occurrences = [''Clean energy'', ''Clean energy'', ''clean energy''] \<rparr>"
    by code_simp
  have f: "findKeywordOccurrences (bodyText energyDocument) ''clean energy''
      = Inr [''Clean energy'', ''Clean energy'', ''clean energy'']" by code_simp
  have k: "length (splitRuns isSpace ''clean energy'') = 2" by code_simp
  have w: "length (splitRuns isSpace (normalizeText (bodyText energyDocument))) = 14" by code_simp
  from density_formula [OF e] f k w show ?thesis by (simp add: e)
qed

lemma length_splitChar: "length (splitChar d s) = Suc (length (filter (\<lambda>c. c = d) s))"
  by (induction s) (auto split: list.splits)

lemma multiword_iff: "(length (splitChar d s) = 1) = (d \<notin> set s)"
  by (auto simp: length_splitChar filter_empty_conv)

lemma findKeywordOccurrences_multiword:
  "CHR '' '' \<in> set (normalizeText kw) \<Longrightarrow> \<exists>x. findKeywordOccurrences t kw = Inr x"
  using multiword_iff [of "CHR '' ''" "normalizeText kw"]
  by (simp add: findKeywordOccurrences_def Let_def)

lemma countInElements_total:
  "(\<And>t. \<exists>x. findKeywordOccurrences t kw = Inr x) \<Longrightarrow> \<exists>m. countInElements els kw n = Inr m"
proof (induction els arbitrary: n)
  case Nil
  then show ?case by simp
next
  case (Cons el els)
  from Cons.prems obtain x where "findKeywordOccurrences el kw = Inr x" by blast
  with Cons.IH [OF Cons.prems] show ?case by (simp add: andThen_def)
qed

lemma analyzeKeyword_total:
  assumes "\<And>t. \<exists>x. findKeywordOccurrences t kw = Inr x"
  shows "\<exists>r. analyzeKeyword doc kw = Inr r"
proof -
  obtain occs where 1: "findKeywordOccurrences (bodyText doc) kw = Inr occs" using assms by blast
  obtain inT where 2: "findKeywordOccurrences (orEmpty (title doc)) kw = Inr inT" using assms by blast
  obtain inP where 3: "findKeywordOccurrences (case paragraphs doc of [] \<Rightarrow> [] | p # _ \<Rightarrow> p) kw = Inr inP"
    using assms by blast
  obtain c1 where 4: "countInElements (h1Elements doc) kw 0 = Inr c1"
    using countInElements_total [OF assms] by blast
  obtain c2 where 5: "countInElements (h2Elements doc) kw 0 = Inr c2"
    using countInElements_total [OF assms] by blast
  obtain c3 where 6: "countInElements (h3Elements doc) kw 0 = Inr c3"
    using countInElements_total [OF assms] by blast
  obtain inM where 7: "findKeywordOccurrences (orEmpty (metaDescription doc)) kw = Inr inM"
    using assms by blast
  show ?thesis
    unfolding analyzeKeyword_def Let_def by (simp add: 1 2 3 4 5 6 7 andThen_def)
qed

lemma String_includes_set: "String_includes s sub \<Longrightarrow> set sub \<subseteq> set s"
proof -
  assume "String_includes s sub"
  then obtain i where "take (length sub) (drop i s) = sub"
    by (auto simp: String_includes_def list_ex_iff)
  then have "set sub \<subseteq> set (drop i s)" by (metis set_take_subset)
  then show ?thesis using set_drop_subset by fastforce
qed

lemma replaceRuns_has_replacement:
  "c \<in> set s \<Longrightarrow> P c \<Longrightarrow> set r \<subseteq> set (replaceRuns P r s)"
proof (induction P r s rule: replaceRuns.induct)
  case (1 P r)
  then show ?case by simp
next
  case (2 P r d ds)
  show ?case
  proof (cases "P d")
    case True
    then show ?thesis by simp
  next
    case False
    with 2 show ?thesis by auto
  qed
qed

lemma hyphen_not_normalized: "CHR ''-'' \<notin> set (normalizeText s)"
proof
  assume "CHR ''-'' \<in> set (normalizeText s)"
  then have "CHR ''-'' \<notin> set punctuation" using normalizeText_chars by blast
  then show False by (simp add: punctuation_def)
qed

text \<open>
  Claim C9. For a keyword whose normalized form holds a space, \<open>analyzeKeyword\<close> returns
  and its URL flag is false, whatever the document: the keyword is searched with a hyphen
  for each space, and the normalized path holds no hyphen.
\<close>

theorem multiword_never_in_url:
  assumes "CHR '' '' \<in> set (normalizeText kw)"
  shows "\<exists>r. analyzeKeyword doc kw = Inr r \<and> \<not> inUrl r"
proof -
  obtain r where r: "analyzeKeyword doc kw = Inr r"
    using analyzeKeyword_total findKeywordOccurrences_multiword [OF assms] by blast
  from analyzeKeyword_Inr [OF r] have u: "inUrl r = String_includes (normalizeText (pathname doc))
                       (replaceRuns isSpace ''-'' (normalizeText kw))"
    by auto
  have "isSpace (CHR '' '')" by (simp add: isSpace_def)
  with assms have "CHR ''-'' \<in> set (replaceRuns isSpace ''-'' (normalizeText kw))"
    using replaceRuns_has_replacement [of "CHR '' ''" "normalizeText kw" isSpace "''-''"] by simp
  then have "\<not> String_includes (normalizeText (pathname doc)) (replaceRuns isSpace ''-'' (normalizeText kw))"
    using String_includes_set hyphen_not_normalized by blast
  with r u show ?thesis by simp
qed

text \<open>A page whose path is \<open>/clean-energy\<close>, and the keyword \<open>Clean Energy\<close>.\<close>

theorem multiword_never_in_url_witness:
  "CHR '' '' \<in> set (normalizeText ''Clean Energy'')
   \<and> map_sum id inUrl (analyzeKeyword energyDocument ''Clean Energy'') = Inr False"
proof -
  have n: "CHR '' '' \<in> set (normalizeText ''Clean Energy'')" by code_simp
  from multiword_never_in_url [OF n, of energyDocument] n show ?thesis by auto
qed

section \<open>The patterns of the occurrence finder\<close>

text \<open>
  Every pattern that the occurrence finder builds is inside the model of the pattern
  grammar: the finder returns occurrences or throws a syntax error.
\<close>

lemma parseDisjunction_modelled: "parseDisjunction s cur alts \<noteq> Inl Unmodelled"
  by (induction s cur alts rule: parseDisjunction.induct)
     (auto split: option.splits prod.splits atom.splits if_splits)

lemma wsnf_space: "wsnf s \<Longrightarrow> c \<in> set s \<Longrightarrow> isSpace c \<Longrightarrow> c = CHR '' ''"
  by (induction s rule: wsnf.induct) auto

lemma normalized_word_survives:
  assumes "CHR '' '' \<notin> set (normalizeText kw)"
  shows "list_all survives (normalizeText kw)"
proof -
  have "survives c" if c: "c \<in> set (normalizeText kw)" for c
  proof -
    have "\<not> isSpace c" using wsnf_space [OF normalizeText_wsnf c] c assms by blast
    then show ?thesis using normalizeText_chars [OF c] by (simp add: survives_def)
  qed
  then show ?thesis by (simp add: list_all_iff)
qed

lemma RegExp_gi_modelled: "list_all survives pattern \<Longrightarrow> RegExp_gi pattern \<noteq> Inl Unmodelled"
  unfolding RegExp_gi_def by (simp only: if_True parseDisjunction_modelled not_False_eq_True)

lemma findKeywordOccurrences_modelled: "findKeywordOccurrences t kw \<noteq> Inl Unmodelled"
proof (cases "CHR '' '' \<in> set (normalizeText kw)")
  case True
  then show ?thesis using findKeywordOccurrences_multiword [of kw t] by auto
next
  case False
  define pattern where "pattern = [backslash, CHR ''b''] @ normalizeText kw @ [backslash, CHR ''b'']"
  have b: "survives backslash" "survives (CHR ''b'')" by code_simp+
  have "list_all survives pattern"
    using normalized_word_survives [OF False] b by (simp add: pattern_def)
  then have "RegExp_gi pattern \<noteq> Inl Unmodelled" by (rule RegExp_gi_modelled)
  then show ?thesis
    unfolding findKeywordOccurrences_def Let_def pattern_def by (auto split: sum.splits)
qed

text \<open>The examples of the specification.\<close>

lemma finder_examples:
  "findKeywordOccurrences ''Renewable energy is the future of energy.'' ''energy''
     = Inr [''energy'', ''energy'']"
  "findKeywordOccurrences ''An energybox saves Energy'' ''energy'' = Inr [''Energy'']"
  "findKeywordOccurrences ''Clean energy solutions for clean energy future'' ''clean energy''
     = Inr [''Clean energy'', ''clean energy'']"
  by code_simp+

lemma segmentation_example:
  "length (sentencesOf ''The cat sat. The dog ran fast.'') = 2"
  "length (wordsOf ''The cat sat. The dog ran fast.'') = 7"
  by code_simp+

section \<open>Keyword usage\<close>

lemma forEachKeyword_all:
  "list_all (\<lambda>ik. \<not> isl (analyzeKeyword doc (snd ik))) iks \<Longrightarrow>
     forEachKeyword doc iks = (concat (map (keywordReport doc) iks), Inr ())"
proof (induction iks)
  case Nil
  then show ?case by simp
next
  case (Cons ik iks)
  obtain i k where ik: "ik = (i, k)" by (cases ik)
  from Cons.prems ik obtain a where a: "analyzeKeyword doc k = Inr a"
    by (cases "analyzeKeyword doc k") auto
  have r: "keywordReport doc (i, k) = analyzingLine i k # displayResults a k"
    by (simp add: keywordReport_def a)
  from Cons have "forEachKeyword doc iks = (concat (map (keywordReport doc) iks), Inr ())" by simp
  then show ?case by (simp add: ik a r)
qed

lemma list_all_enumerate:
  "list_all (\<lambda>k. P k) ks \<Longrightarrow> list_all (\<lambda>ik. P (snd ik)) (enumerate n ks)"
  by (induction ks arbitrary: n) auto

text \<open>
  Where no analysis throws. When the keyword input is empty after trimming,
  \<open>analyzeKeywordUsage\<close> logs that no keywords were provided and analyzes nothing.
  Otherwise the keywords are the entries of the input split on commas, trimmed, the empty
  ones left out; when the analysis of none of them throws, the report is the heading, then
  the report of each keyword in the order supplied, then the relationship analysis when
  there are at least two keywords.
\<close>

lemma analyzeKeywordUsage_report:
  "(trim keywordsInput = [] \<longrightarrow>
      analyzeKeywordUsage doc keywordsInput = ([(LError, [S ''No keywords provided''])], Inr ()))
   \<and> (trim keywordsInput \<noteq> []
        \<and> keywords = filter (\<lambda>k. length k > 0) (map trim (splitChar CHR '','' keywordsInput))
        \<and> list_all (\<lambda>k. \<not> isl (analyzeKeyword doc k)) keywords \<longrightarrow>
      analyzeKeywordUsage doc keywordsInput
        = ((LInfo, [S newline, S ''Analyzing '', N (num (length keywords)), S '' keywords:''])
           # concat (map (keywordReport doc) (enumerate 0 keywords))
           @ (if length keywords > 1 then analyzeKeywordRelationships keywords else []),
           Inr ()))"
proof (intro conjI impI)
  assume "trim keywordsInput = []"
  then show "analyzeKeywordUsage doc keywordsInput = ([(LError, [S ''No keywords provided''])], Inr ())"
    by (simp add: analyzeKeywordUsage_def)
next
  assume a: "trim keywordsInput \<noteq> []
        \<and> keywords = filter (\<lambda>k. length k > 0) (map trim (splitChar CHR '','' keywordsInput))
        \<and> list_all (\<lambda>k. \<not> isl (analyzeKeyword doc k)) keywords"
  then have k: "splitKeywords keywordsInput = keywords" by (simp add: splitKeywords_def)
  from a have "list_all (\<lambda>k. \<not> isl (analyzeKeyword doc k)) keywords" by blast
  then have "list_all (\<lambda>ik. \<not> isl (analyzeKeyword doc (snd ik))) (enumerate 0 keywords)"
    by (rule list_all_enumerate)
  then have "forEachKeyword doc (enumerate 0 keywords)
               = (concat (map (keywordReport doc) (enumerate 0 keywords)), Inr ())"
    by (rule forEachKeyword_all)
  with a show "analyzeKeywordUsage doc keywordsInput
        = ((LInfo, [S newline, S ''Analyzing '', N (num (length keywords)), S '' keywords:''])
           # concat (map (keywordReport doc) (enumerate 0 keywords))
           @ (if length keywords > 1 then analyzeKeywordRelationships keywords else []),
           Inr ())"
    by (simp add: analyzeKeywordUsage_def k Let_def)
qed

text \<open>A blank input, and an input of three entries of which one is blank.\<close>

lemma analyzeKeywordUsage_report_example:
  "analyzeKeywordUsage energyDocument ''  '' = ([(LError, [S ''No keywords provided''])], Inr ())
   \<and> filter (\<lambda>k. length k > 0) (map trim (splitChar CHR '','' '' clean energy, ,Energy ''))
       = [''clean energy'', ''Energy'']
   \<and> analyzeKeywordUsage energyDocument '' clean energy, ,Energy ''
       = ((LInfo, [S newline, S ''Analyzing '', N (num 2), S '' keywords:''])
          # keywordReport energyDocument (0, ''clean energy'')
          @ keywordReport energyDocument (1, ''Energy'')
          @ analyzeKeywordRelationships [''clean energy'', ''Energy''],
          Inr ())"
proof -
  have t1: "trim ''  '' = []" by code_simp
  have t2: "trim '' clean energy, ,Energy '' \<noteq> []" by code_simp
  have ks: "[''clean energy'', ''Energy'']
      = filter (\<lambda>k. length k > 0) (map trim (splitChar CHR '','' '' clean energy, ,Energy ''))"
    by code_simp
  have ok: "list_all (\<lambda>k. \<not> isl (analyzeKeyword energyDocument k)) [''clean energy'', ''Energy'']"
    by code_simp
  have e: "enumerate 0 [''clean energy'', ''Energy''] = [(0, ''clean energy''), (1, ''Energy'')]"
    by code_simp
  from analyzeKeywordUsage_report [of "''  ''" energyDocument] t1
  have 1: "analyzeKeywordUsage energyDocument ''  '' = ([(LError, [S ''No keywords provided''])], Inr ())"
    by blast
  from analyzeKeywordUsage_report [of "'' clean energy, ,Energy ''" energyDocument "[''clean energy'', ''Energy'']"]
    t2 ks ok
  have 2: "analyzeKeywordUsage energyDocument '' clean energy, ,Energy ''
       = ((LInfo, [S newline, S ''Analyzing '', N (num (length [''clean energy'', ''Energy''])), S '' keywords:''])
           # concat (map (keywordReport energyDocument) (enumerate 0 [''clean energy'', ''Energy'']))
           @ (if length [''clean energy'', ''Energy''] > 1 then analyzeKeywordRelationships [''clean energy'', ''Energy''] else []),
           Inr ())"
    by blast
  have 3: "concat (map (keywordReport energyDocument) (enumerate 0 [''clean energy'', ''Energy'']))
             = keywordReport energyDocument (0, ''clean energy'') @ keywordReport energyDocument (1, ''Energy'')"
    by (simp only: e list.map concat.simps append_Nil2)
  have 4: "analyzeKeywordUsage energyDocument '' clean energy, ,Energy ''
       = ((LInfo, [S newline, S ''Analyzing '', N (num 2), S '' keywords:''])
          # keywordReport energyDocument (0, ''clean energy'')
          @ keywordReport energyDocument (1, ''Energy'')
          @ analyzeKeywordRelationships [''clean energy'', ''Energy''],
          Inr ())"
    unfolding 2 3 by (simp add: numeral_2_eq_2)
  show ?thesis using 1 4 ks [symmetric] by blast
qed

text \<open>
  Claim C8. The claim says that every keyword left by the split is analyzed, in the order
  supplied. On the input \<open>c++, solar power\<close> the code does not do so: the input is not
  blank and splits into two keywords, the analysis of the first throws the syntax error
  of the unescaped pattern after the line that names it, the run ends there, and the second
  keyword is never analyzed. The multi-word branch of the occurrence finder takes the same
  characters literally and returns.
\<close>

theorem keyword_usage_throws:
  "trim ''c++, solar power'' \<noteq> []
   \<and> filter (\<lambda>k. length k > 0) (map trim (splitChar CHR '','' ''c++, solar power''))
       = [''c++'', ''solar power'']
   \<and> analyzeKeywordUsage energyDocument ''c++, solar power''
       = ([(LInfo, [S newline, S ''Analyzing '', N (num 2), S '' keywords:'']),
           analyzingLine 0 ''c++''],
          Inl SyntaxError)
   \<and> findKeywordOccurrences ''Learn the C++ language'' ''c++ language''
       = Inr [''C++ language'']"
  by code_simp

section \<open>Syllable estimator\<close>

lemma vowelGroups_nonvowel: "\<not> isVowelY c \<Longrightarrow> vowelGroups (c # t) = vowelGroups t"
  by (cases t) auto

lemma vowelGroups_dropWhile: "vowelGroups (dropWhile (\<lambda>c. \<not> isVowelY c) t) = vowelGroups t"
  by (induction t) (auto simp: vowelGroups_nonvowel)

lemma vowelGroups_run:
  "list_all isVowelY vs \<Longrightarrow> t = [] \<or> \<not> isVowelY (hd t) \<Longrightarrow>
     length (vowelGroups (vs @ t)) = (length vs + 1) div 2 + length (vowelGroups t)"
proof (induction vs rule: induct_list012)
  case 1
  then show ?case by simp
next
  case (2 v)
  then show ?case by (cases t) (auto simp: vowelGroups_nonvowel)
next
  case (3 v w vs)
  then show ?case by simp
qed

lemma vowelGroups_runs:
  "length (vowelGroups s) = sum_list (map (\<lambda>r. (length r + 1) div 2) (vowelRuns s))"
proof (induction "\<lambda>c. \<not> isVowelY c" s rule: splitRuns.induct)
  case (1 s)
  show ?case
  proof (cases "dropWhile isVowelY s")
    case Nil
    then have all: "list_all isVowelY s" by (simp add: list_all_iff)
    have "splitRuns (\<lambda>c. \<not> isVowelY c) s = [s]"
      by (subst splitRuns.simps) (simp add: Nil)
    moreover have "length (vowelGroups s) = (length s + 1) div 2"
      using vowelGroups_run [OF all, of "[]"] by simp
    ultimately show ?thesis by (simp add: vowelRuns_def)
  next
    case (Cons c rest)
    let ?vs = "takeWhile isVowelY s"
    have s: "s = ?vs @ c # rest" using Cons by (metis takeWhile_dropWhile_id)
    have c: "\<not> isVowelY c" using Cons hd_dropWhile [of isVowelY s] by simp
    have sp: "splitRuns (\<lambda>c. \<not> isVowelY c) s
                = ?vs # splitRuns (\<lambda>c. \<not> isVowelY c) (dropWhile (\<lambda>c. \<not> isVowelY c) rest)"
      by (subst splitRuns.simps) (simp add: Cons)
    have ih: "length (vowelGroups (dropWhile (\<lambda>c. \<not> isVowelY c) rest))
              = sum_list (map (\<lambda>r. (length r + 1) div 2) (vowelRuns (dropWhile (\<lambda>c. \<not> isVowelY c) rest)))"
      using 1 [of c rest] Cons by simp
    have "length (vowelGroups s) = length (vowelGroups (?vs @ c # rest))" using s by simp
    also have "\<dots> = (length ?vs + 1) div 2 + length (vowelGroups (c # rest))"
      by (rule vowelGroups_run) (simp_all add: c list_all_iff, metis set_takeWhileD)
    also have "\<dots> = (length ?vs + 1) div 2 + length (vowelGroups (dropWhile (\<lambda>c. \<not> isVowelY c) rest))"
      by (simp add: vowelGroups_nonvowel c vowelGroups_dropWhile)
    finally show ?thesis
      by (simp add: ih vowelRuns_def sp)
  qed
qed

lemma vowelRuns_nonempty: "r \<in> set (vowelRuns s) \<Longrightarrow> r \<noteq> []"
  by (simp add: vowelRuns_def)

lemma vowelGroups_Nil_iff: "(vowelGroups s = []) = (vowelRuns s = [])"
proof -
  have "(sum_list (map (\<lambda>r. (length r + 1) div 2) (vowelRuns s)) = 0) = (vowelRuns s = [])"
  proof (cases "vowelRuns s")
    case Nil
    then show ?thesis by simp
  next
    case (Cons r rs)
    then have "r \<noteq> []" using vowelRuns_nonempty [of r s] by simp
    then have "(length r + 1) div 2 \<noteq> 0" by (cases r) auto
    then show ?thesis using Cons by simp
  qed
  then show ?thesis using vowelGroups_runs [of s] by (metis length_0_conv)
qed

lemma countWordSyllables_eq_runs: "countWordSyllables word = countWordSyllables_runs word"
  by (simp add: countWordSyllables_def countWordSyllables_runs_def Let_def
      vowelGroups_Nil_iff vowelGroups_runs)

lemma countWordSyllables_pos: "1 \<le> countWordSyllables word"
  by (auto simp: countWordSyllables_def Let_def Suc_le_eq)

lemma stripSuffix_es: "stripSuffix (p @ [x] @ ''es'') = (if x \<notin> set ''laeiouy'' then p else p @ [x] @ ''es'')"
  by (simp add: stripSuffix_def Let_def nth_append)

lemma stripSuffix_ed: "stripSuffix (p @ ''ed'') = p"
  by (simp add: stripSuffix_def Let_def nth_append)

lemma stripSuffix_e: "stripSuffix (p @ [x] @ ''e'') = (if x \<notin> set ''laeiouy'' then p else p @ [x] @ ''e'')"
  by (simp add: stripSuffix_def Let_def nth_append)

text \<open>
  Claim C2, as amended. After lowercasing and stripping everything but \<open>a\<close> to \<open>z\<close>, a
  word of at most three letters counts 1. Otherwise a trailing suffix is removed: a
  character other than \<open>l a e i o u y\<close> followed by \<open>es\<close>, or \<open>ed\<close> after anything, or a
  character other than \<open>l a e i o u y\<close> followed by \<open>e\<close>; a leading \<open>y\<close> is stripped; and
  each maximal run of \<open>n\<close> vowel-or-y characters counts \<open>(n + 1) div 2\<close> syllables, with a
  floor of 1 when there is no run. The result is at least 1 for every input, 1 for
  \<open>cat\<close> and 3 for \<open>banana\<close>.
\<close>

theorem countWordSyllables_algorithm:
  "countWordSyllables word = countWordSyllables_runs word
   \<and> stripSuffix (p @ [x] @ ''es'') = (if x \<notin> set ''laeiouy'' then p else p @ [x] @ ''es'')
   \<and> stripSuffix (p @ ''ed'') = p
   \<and> stripSuffix (p @ [x] @ ''e'') = (if x \<notin> set ''laeiouy'' then p else p @ [x] @ ''e'')
   \<and> 1 \<le> countWordSyllables word
   \<and> countWordSyllables ''cat'' = 1
   \<and> countWordSyllables ''banana'' = 3"
proof -
  have cat: "countWordSyllables ''cat'' = 1" by code_simp
  have banana: "countWordSyllables ''banana'' = 3" by code_simp
  show ?thesis
    by (intro conjI)
       (rule countWordSyllables_eq_runs stripSuffix_es stripSuffix_ed stripSuffix_e
             countWordSyllables_pos cat banana)+
qed

text \<open>
  Claim C2 as stated fails: the algorithm of the specification gives 1 for \<open>table\<close> (it
  removes \<open>le\<close>) and 1 for \<open>queue\<close> (one run of vowels), and the code gives 2 for both.
\<close>

theorem countWordSyllables_spec_counterexample:
  "countWordSyllables ''table'' = 2 \<and> countWordSyllables_spec ''table'' = 1
   \<and> countWordSyllables ''queue'' = 2 \<and> countWordSyllables_spec ''queue'' = 1"
  by code_simp

section \<open>Degenerate readability scores\<close>

lemma splitRuns_Nil: "dropWhile (\<lambda>c. \<not> P c) s = [] \<Longrightarrow> splitRuns P s = [s]"
  by (subst splitRuns.simps) (simp only: list.case)

lemma splitRuns_Cons:
  "dropWhile (\<lambda>c. \<not> P c) s = d # rest \<Longrightarrow>
     splitRuns P s = takeWhile (\<lambda>c. \<not> P c) s # splitRuns P (dropWhile P rest)"
  by (subst splitRuns.simps) (simp only: list.case)

lemma splitRuns_covers:
  "c \<in> set s \<Longrightarrow> \<not> P c \<Longrightarrow> \<exists>w \<in> set (splitRuns P s). c \<in> set w"
proof (induction P s rule: splitRuns.induct)
  case (1 P s)
  show ?case
  proof (cases "dropWhile (\<lambda>c. \<not> P c) s")
    case Nil
    then have "splitRuns P s = [s]" by (rule splitRuns_Nil)
    with 1 show ?thesis by simp
  next
    case (Cons d rest)
    have sp: "splitRuns P s = takeWhile (\<lambda>c. \<not> P c) s # splitRuns P (dropWhile P rest)"
      using Cons by (rule splitRuns_Cons)
    have s: "s = takeWhile (\<lambda>c. \<not> P c) s @ d # rest"
      using Cons by (metis takeWhile_dropWhile_id)
    have d: "P d" using Cons hd_dropWhile [of "\<lambda>c. \<not> P c" s] by simp
    have r: "rest = takeWhile P rest @ dropWhile P rest" by simp
    from 1(2) s have "c \<in> set (takeWhile (\<lambda>c. \<not> P c) s) \<or> c = d \<or> c \<in> set rest"
      by (metis Un_iff set_ConsD set_append)
    then consider "c \<in> set (takeWhile (\<lambda>c. \<not> P c) s)" | "c \<in> set rest"
      using d 1(3) by blast
    then show ?thesis
    proof cases
      case 1
      then show ?thesis by (simp add: sp)
    next
      case 2
      then have "c \<in> set (takeWhile P rest) \<or> c \<in> set (dropWhile P rest)"
        using r by (metis Un_iff set_append)
      moreover have "c \<notin> set (takeWhile P rest)" using "1.prems"(2) by (meson set_takeWhileD)
      ultimately have "c \<in> set (dropWhile P rest)" by blast
      then have "\<exists>w \<in> set (splitRuns P (dropWhile P rest)). c \<in> set w"
        using "1.IH" [OF Cons] "1.prems"(2) by blast
      then show ?thesis by (simp add: sp)
    qed
  qed
qed

lemma wordsOf_Nil: "wordsOf t = [] \<Longrightarrow> list_all isSpace t"
proof -
  assume w: "wordsOf t = []"
  have "isSpace c" if ct: "c \<in> set t" for c
  proof (rule ccontr)
    assume "\<not> isSpace c"
    then obtain p where p: "p \<in> set (splitRuns isSpace t)" "c \<in> set p"
      using splitRuns_covers [of c t isSpace] ct by blast
    then have "p \<noteq> []" by auto
    with p have "p \<in> set (wordsOf t)" by (simp add: wordsOf_def)
    with w show False by simp
  qed
  then show ?thesis by (simp add: list_all_iff)
qed

lemma space_not_sentence_end: "isSpace c \<Longrightarrow> \<not> isSentenceEnd c"
  by (auto simp: isSpace_def isSentenceEnd_def)

lemma blank_no_sentences: "list_all isSpace t \<Longrightarrow> sentencesOf t = []"
proof -
  assume a: "list_all isSpace t"
  then have "dropWhile (\<lambda>c. \<not> isSentenceEnd c) t = []"
    by (auto simp: list_all_iff space_not_sentence_end)
  then have "splitRuns isSentenceEnd t = [t]" by (rule splitRuns_Nil)
  moreover have "trim t = []"
  proof -
    have d: "dropWhile isSpace t = []" using a by (simp add: list_all_iff)
    show ?thesis by (simp only: trim_def d rev.simps dropWhile.simps)
  qed
  ultimately show ?thesis by (simp add: sentencesOf_def)
qed

lemma foldl_syllables: "n \<le> foldl (\<lambda>total word. total + countWordSyllables word) n ws"
  by (induction ws arbitrary: n) (auto intro: le_trans [OF le_add1])

lemma countSyllables_pos: "0 < countSyllables t"
proof -
  obtain w ws where s: "splitRuns isSpace (toLowerCase t) = w # ws"
    using splitRuns_nonempty [of isSpace "toLowerCase t"] by (cases "splitRuns isSpace (toLowerCase t)") auto
  have "0 < countWordSyllables w" by (auto simp: countWordSyllables_def Let_def)
  then have "0 < foldl (\<lambda>total word. total + countWordSyllables word) (0 + countWordSyllables w) ws"
    using foldl_syllables [of "0 + countWordSyllables w" ws] by simp
  then show ?thesis by (simp add: countSyllables_def s)
qed

lemma metrics_no_words:
  assumes "wordsOf text = []"
  shows "sentencesOf text = []
       \<and> fleschEase (calculateMetrics text language) = NaN
       \<and> fleschKincaid (calculateMetrics text language) = NaN
       \<and> gunningFog (calculateMetrics text language) = NaN
       \<and> colemanLiau (calculateMetrics text language) = NaN
       \<and> lix (calculateMetrics text language) = NaN"
proof -
  have s: "sentencesOf text = []" using assms wordsOf_Nil blank_no_sentences by blast
  show ?thesis
    by (simp add: s assms calculateMetrics_def calculateLIX_def Let_def num_def js_sub_def signed_inf_def)
qed

lemma metrics_no_sentences:
  assumes "wordsOf text \<noteq> []" "sentencesOf text = []"
  shows "fleschEase (calculateMetrics text language) = NegInf
       \<and> fleschKincaid (calculateMetrics text language) = PosInf
       \<and> gunningFog (calculateMetrics text language) = PosInf
       \<and> lix (calculateMetrics text language) = PosInf
       \<and> (\<exists>x. colemanLiau (calculateMetrics text language) = Fin x)"
  using assms
  by (simp add: calculateMetrics_def calculateLIX_def Let_def num_def js_sub_def signed_inf_def)

lemma content_guard:
  "(analyzeContent improveText document = [(LWarn, [S ''No paragraph content found to analyze''])])
     = (paragraphs document = [])"
  by (simp add: analyzeContent_def Let_def)

lemma content_lines:
  "paragraphs document \<noteq> [] \<Longrightarrow>
     set (readabilityLines (calculateMetrics (fullTextOf document) (languageOf document))
                           (languageOf document))
       \<subseteq> set (analyzeContent improveText document)"
  by (auto simp: analyzeContent_def Let_def)

text \<open>
  Claim C1, as amended. When the text has no words it has no sentences either and the
  five scores are not-a-number. When it has words and no sentences, Flesch Reading Ease is
  minus infinity, Flesch-Kincaid, Gunning Fog and LIX are plus infinity, and Coleman-Liau
  is finite. \<open>analyzeContent\<close> has no check of the scores: the metrics block gives way to
  the warning that no paragraph content was found exactly when the document has no
  paragraph element, and whenever there is one the readability lines are logged with the
  rounded scores as they are.
\<close>

theorem degenerate_scores:
  "(wordsOf text = [] \<longrightarrow>
      sentencesOf text = []
      \<and> fleschEase (calculateMetrics text language) = NaN
      \<and> fleschKincaid (calculateMetrics text language) = NaN
      \<and> gunningFog (calculateMetrics text language) = NaN
      \<and> colemanLiau (calculateMetrics text language) = NaN
      \<and> lix (calculateMetrics text language) = NaN)
   \<and> (wordsOf text \<noteq> [] \<and> sentencesOf text = [] \<longrightarrow>
      fleschEase (calculateMetrics text language) = NegInf
      \<and> fleschKincaid (calculateMetrics text language) = PosInf
      \<and> gunningFog (calculateMetrics text language) = PosInf
      \<and> lix (calculateMetrics text language) = PosInf
      \<and> (\<exists>x. colemanLiau (calculateMetrics text language) = Fin x))
   \<and> (analyzeContent improveText document = [(LWarn, [S ''No paragraph content found to analyze''])])
       = (paragraphs document = [])
   \<and> (paragraphs document \<noteq> [] \<longrightarrow>
      set (readabilityLines (calculateMetrics (fullTextOf document) (languageOf document))
                            (languageOf document))
        \<subseteq> set (analyzeContent improveText document))"
  using metrics_no_words [of "text" language] metrics_no_sentences [of "text" language]
        content_guard [of improveText document] content_lines [of document improveText]
  by blast

text \<open>
  Claim C1 as stated fails. For a page with an empty and a blank paragraph the joined
  text has no words, and the report holds the score lines with not-a-number in them. For
  a page whose only paragraph is an ellipsis the text has a word and no sentence, and the
  report holds the score lines with the infinities in them.
\<close>

theorem degenerate_scores_counterexample:
  "wordsOf (fullTextOf blankDocument) = []
   \<and> analyzeContent noImprovement blankDocument
     = [(LStep, [S ''Content Structure Analysis:'']),
        (LStep, [S ''Readability Analysis:'']),
        (LInfo, [S ''Flesch Reading Ease: '', N NaN, S '' ('',
                 S ''Very Difficult (College graduate)'', S '')'']),
        (LInfo, [S ''Flesch-Kincaid Grade Level: '', N NaN]),
        (LInfo, [S ''Gunning Fog Index: '', N NaN]),
        (LInfo, [S ''Coleman-Liau Index: '', N NaN]),
        (LStep, [S ''Content Statistics:'']),
        (LInfo, [S ''Total Words: '', N (Fin 0)]),
        (LInfo, [S ''Total Sentences: '', N (Fin 0)]),
        (LInfo, [S ''Average Words per Sentence: '', N NaN]),
        (LInfo, [S ''Complex Words: '', N (Fin 0), S '' ('', N NaN, S ''%)''])]
   \<and> wordsOf (fullTextOf ellipsisDocument) = [''...'']
   \<and> sentencesOf (fullTextOf ellipsisDocument) = []
   \<and> analyzeContent noImprovement ellipsisDocument
     = [(LStep, [S ''Content Structure Analysis:'']),
        (LStep, [S ''Readability Analysis:'']),
        (LInfo, [S ''Flesch Reading Ease: '', N NegInf, S '' ('',
                 S ''Very Difficult (College graduate)'', S '')'']),
        (LInfo, [S ''Flesch-Kincaid Grade Level: '', N PosInf]),
        (LInfo, [S ''Gunning Fog Index: '', N PosInf]),
        (LInfo, [S ''Coleman-Liau Index: '', N (Fin 2)]),
        (LStep, [S ''Content Statistics:'']),
        (LInfo, [S ''Total Words: '', N (Fin 1)]),
        (LInfo, [S ''Total Sentences: '', N (Fin 0)]),
        (LInfo, [S ''Average Words per Sentence: '', N PosInf]),
        (LInfo, [S ''Complex Words: '', N (Fin 0), S '' ('', N (Fin 0), S ''%)'']),
        (LStep, [S ''Recommendations:'']),
        (LWarn, [S ''Consider shortening your sentences (aim for 15-20 words per sentence)'']),
        (LWarn, [S ''Content might be too difficult for general audience (aim for score above 60)''])]"
  by code_simp

text \<open>The empty text, the text \<open>...\<close> and the page of blank paragraphs.\<close>

theorem degenerate_scores_witness:
  "fleschEase (calculateMetrics [] ''en'') = NaN
   \<and> colemanLiau (calculateMetrics [] ''en'') = NaN
   \<and> fleschEase (calculateMetrics ''...'' ''en'') = NegInf
   \<and> colemanLiau (calculateMetrics ''...'' ''en'') = Fin (46 / 25)
   \<and> set (readabilityLines (calculateMetrics (fullTextOf blankDocument) (languageOf blankDocument))
                            (languageOf blankDocument))
        \<subseteq> set (analyzeContent noImprovement blankDocument)"
proof -
  have a: "wordsOf [] = []" by code_simp
  have b: "wordsOf ''...'' \<noteq> [] \<and> sentencesOf ''...'' = []" by code_simp
  have c: "paragraphs blankDocument \<noteq> []" by code_simp
  have d: "colemanLiau (calculateMetrics ''...'' ''en'') = Fin (46 / 25)" by code_simp
  show ?thesis
    using degenerate_scores [of "[]" "''en''" noImprovement blankDocument]
          degenerate_scores [of "''...''" "''en''" noImprovement blankDocument] a b c d
    by blast
qed

end
